theory Spec2Isabelle
  imports Complex_Main "HOL-Library.Sublist" "HOL-Library.AList"
begin

section \<open>Numbers\<close>

text \<open>
  The dashboards compute with Python and numpy floats. A float is modelled as an exact
  rational or one of the three special values of IEEE 754. Division by zero, as numpy and
  pandas perform it, does not raise: it yields an infinity or NaN. Rounding and signed
  zeros are not modelled. These operations are exact: they are those of the program as
  long as no result leaves the range of binary64. The range is added to them further
  down, for the metrics engine.
\<close>

datatype fl = Fin rat | PInf | NInf | NaN

fun fdiv :: "fl \<Rightarrow> fl \<Rightarrow> fl" where
  "fdiv NaN _ = NaN"
| "fdiv _ NaN = NaN"
| "fdiv (Fin a) (Fin b) =
     (if b \<noteq> 0 then Fin (a / b)
      else if 0 < a then PInf else if a < 0 then NInf else NaN)"
| "fdiv (Fin a) PInf = Fin 0"
| "fdiv (Fin a) NInf = Fin 0"
| "fdiv PInf (Fin b) = (if 0 \<le> b then PInf else NInf)"
| "fdiv NInf (Fin b) = (if 0 \<le> b then NInf else PInf)"
| "fdiv PInf PInf = NaN"
| "fdiv PInf NInf = NaN"
| "fdiv NInf PInf = NaN"
| "fdiv NInf NInf = NaN"

fun fmul :: "fl \<Rightarrow> fl \<Rightarrow> fl" where
  "fmul NaN _ = NaN"
| "fmul _ NaN = NaN"
| "fmul (Fin a) (Fin b) = Fin (a * b)"
| "fmul (Fin a) PInf = (if 0 < a then PInf else if a < 0 then NInf else NaN)"
| "fmul (Fin a) NInf = (if 0 < a then NInf else if a < 0 then PInf else NaN)"
| "fmul PInf (Fin b) = (if 0 < b then PInf else if b < 0 then NInf else NaN)"
| "fmul NInf (Fin b) = (if 0 < b then NInf else if b < 0 then PInf else NaN)"
| "fmul PInf PInf = PInf"
| "fmul PInf NInf = NInf"
| "fmul NInf PInf = NInf"
| "fmul NInf NInf = PInf"

text \<open>Comparisons: every comparison with NaN is false.\<close>

fun fless :: "fl \<Rightarrow> fl \<Rightarrow> bool" where
  "fless NaN _ = False"
| "fless _ NaN = False"
| "fless (Fin a) (Fin b) = (a < b)"
| "fless (Fin a) PInf = True"
| "fless (Fin a) NInf = False"
| "fless PInf _ = False"
| "fless NInf (Fin b) = True"
| "fless NInf PInf = True"
| "fless NInf NInf = False"

fun fle :: "fl \<Rightarrow> fl \<Rightarrow> bool" where
  "fle NaN _ = False"
| "fle _ NaN = False"
| "fle (Fin a) (Fin b) = (a \<le> b)"
| "fle (Fin a) PInf = True"
| "fle (Fin a) NInf = False"
| "fle PInf PInf = True"
| "fle PInf _ = False"
| "fle NInf _ = True"

text \<open>\<^verbatim>\<open>Series.fillna(0)\<close> and \<^verbatim>\<open>Series.replace([float('inf')], 0)\<close>, on one element.\<close>

fun fillna0 :: "fl \<Rightarrow> fl" where
  "fillna0 NaN = Fin 0"
| "fillna0 x = x"

fun replace_inf0 :: "fl \<Rightarrow> fl" where
  "replace_inf0 PInf = Fin 0"
| "replace_inf0 x = x"


section \<open>Canonical rows\<close>

type_synonym timestamp = "nat \<times> nat \<times> nat"

text \<open>
  One row of the table built by \<^verbatim>\<open>clean_sheet\<close> (appmanual.py). The rows built from API
  insights (app.py) add \<^verbatim>\<open>reach, frequency, cpc, ctr\<close>; those of the revenue-aware
  dashboard (before_metrics_addition.py) add \<^verbatim>\<open>revenue\<close> as well.
\<close>

record row =
  date :: timestamp
  impressions :: rat
  clicks :: rat
  lp_views :: rat
  adds_to_cart :: rat
  checkouts :: rat
  purchases :: rat
  spend :: rat
  product :: string

record api_row = row +
  reach :: rat
  frequency :: rat
  cpc :: rat
  ctr :: rat

record rev_row = api_row +
  revenue :: rat

section \<open>Metrics engine\<close>

record totals =
  total_impressions :: fl
  total_clicks :: fl
  total_lp_views :: fl
  total_adds_to_cart :: fl
  total_checkouts :: fl
  total_purchases :: fl
  total_spend :: fl

record totals_rev = totals +
  total_revenue :: fl

record 't metric_set =
  CTR :: fl
  LP_View_Rate :: fl
  ATC_Rate :: fl
  Checkout_Rate :: fl
  Purchase_Rate :: fl
  Overall_CVR :: fl
  CPC :: fl
  CPA :: fl
  ROAS :: fl
  Frequency :: fl
  totals :: 't

record 't metric_set_rev = "'t metric_set" +
  ACoS :: fl

text \<open>
  \<^verbatim>\<open>df.sum(numeric_only=True)\<close>, one column: the exact sum over the rows, 0 on no
  rows.
\<close>

definition col_sum :: "('r \<Rightarrow> rat) \<Rightarrow> 'r list \<Rightarrow> fl" where
  "col_sum f df = Fin (sum_list (map f df))"

text \<open>The local helper \<^verbatim>\<open>pct\<close> of \<^verbatim>\<open>calculate_metrics\<close>.\<close>

definition pct :: "fl \<Rightarrow> fl \<Rightarrow> fl" where
  "pct a b = (if fless (Fin 0) b then fmul (fdiv a b) (Fin 100) else Fin 0)"

definition sum_totals :: "('a row_scheme) list \<Rightarrow> totals" where
  "sum_totals df =
     \<lparr> total_impressions = col_sum impressions df,
       total_clicks = col_sum clicks df,
       total_lp_views = col_sum lp_views df,
       total_adds_to_cart = col_sum adds_to_cart df,
       total_checkouts = col_sum checkouts df,
       total_purchases = col_sum purchases df,
       total_spend = col_sum spend df \<rparr>"

definition sum_totals_rev :: "('a rev_row_scheme) list \<Rightarrow> totals_rev" where
  "sum_totals_rev df =
     \<lparr> total_impressions = col_sum impressions df,
       total_clicks = col_sum clicks df,
       total_lp_views = col_sum lp_views df,
       total_adds_to_cart = col_sum adds_to_cart df,
       total_checkouts = col_sum checkouts df,
       total_purchases = col_sum purchases df,
       total_spend = col_sum spend df,
       total_revenue = col_sum revenue df \<rparr>"

text \<open>\<^verbatim>\<open>calculate_metrics\<close> of appmanual.py.\<close>

definition calculate_metrics_manual :: "('a row_scheme) list \<Rightarrow> totals metric_set" where
  "calculate_metrics_manual df =
     (let t = sum_totals df in
      \<lparr> CTR = pct (total_clicks t) (total_impressions t),
        LP_View_Rate = pct (total_lp_views t) (total_clicks t),
        ATC_Rate = pct (total_adds_to_cart t) (total_lp_views t),
        Checkout_Rate = pct (total_checkouts t) (total_adds_to_cart t),
        Purchase_Rate = pct (total_purchases t) (total_checkouts t),
        Overall_CVR = pct (total_purchases t) (total_clicks t),
        CPC = (if fless (Fin 0) (total_clicks t)
               then fdiv (total_spend t) (total_clicks t) else Fin 0),
        CPA = (if fless (Fin 0) (total_purchases t)
               then fdiv (total_spend t) (total_purchases t) else Fin 0),
        ROAS = (if fless (Fin 0) (total_spend t)
                then fdiv (fmul (total_purchases t) (Fin 500)) (total_spend t) else Fin 0),
        Frequency = (if fless (Fin 0) (total_clicks t)
                     then fdiv (total_impressions t) (total_clicks t) else Fin 0),
        totals = t \<rparr>)"


text \<open>\<^verbatim>\<open>calculate_metrics\<close> of before_metrics_addition.py, with true revenue.\<close>

definition calculate_metrics_rev :: "('a rev_row_scheme) list \<Rightarrow> totals_rev metric_set_rev" where
  "calculate_metrics_rev df =
     (let t = sum_totals_rev df;
          roas = (if fless (Fin 0) (total_spend t)
                  then fdiv (total_revenue t) (total_spend t) else Fin 0);
          acos = (if fless (Fin 0) (total_revenue t)
                  then fmul (fdiv (total_spend t) (total_revenue t)) (Fin 100) else Fin 0)
      in
      \<lparr> CTR = pct (total_clicks t) (total_impressions t),
        LP_View_Rate = pct (total_lp_views t) (total_clicks t),
        ATC_Rate = pct (total_adds_to_cart t) (total_lp_views t),
        Checkout_Rate = pct (total_checkouts t) (total_adds_to_cart t),
        Purchase_Rate = pct (total_purchases t) (total_checkouts t),
        Overall_CVR = pct (total_purchases t) (total_clicks t),
        CPC = (if fless (Fin 0) (total_clicks t)
               then fdiv (total_spend t) (total_clicks t) else Fin 0),
        CPA = (if fless (Fin 0) (total_purchases t)
               then fdiv (total_spend t) (total_purchases t) else Fin 0),
        ROAS = roas,
        Frequency = (if 0 < length df
                     then fdiv (col_sum frequency df) (Fin (of_nat (length df))) else Fin 0),
        totals = t,
        ACoS = acos \<rparr>)"



text \<open>The Metric Set whose totals and metrics are all 0.\<close>

definition zero_totals :: totals where
  "zero_totals =
     \<lparr> total_impressions = Fin 0, total_clicks = Fin 0, total_lp_views = Fin 0,
       total_adds_to_cart = Fin 0, total_checkouts = Fin 0, total_purchases = Fin 0,
       total_spend = Fin 0 \<rparr>"



text \<open>A day with clicks and spend but no impression, no cart and no purchase.\<close>

definition zero_day :: row where
  "zero_day =
     \<lparr> date = (2024, 1, 1), impressions = 0, clicks = 5, lp_views = 4, adds_to_cart = 0,
       checkouts = 0, purchases = 0, spend = 100, product = ''p'' \<rparr>"


section \<open>Daily metrics\<close>

text \<open>
  The columns that \<^verbatim>\<open>calculate_daily_metrics\<close> adds to the copy of the table, for one
  row. The arithmetic of pandas on two columns is element by element, so each new value
  depends on its own row only.
\<close>

record daily =
  daily_CTR :: fl
  daily_LP_View_Rate :: fl
  daily_ATC_Rate :: fl
  daily_Checkout_Rate :: fl
  daily_Purchase_Rate :: fl
  daily_Overall_CVR :: fl
  daily_CPC :: fl
  daily_CPA :: fl
  daily_Frequency :: fl

record daily_rev = daily +
  daily_ROAS :: fl
  daily_ACoS :: fl

text \<open>\<^verbatim>\<open>calculate_daily_metrics\<close> of appmanual.py.\<close>

definition daily_of :: "'a row_scheme \<Rightarrow> daily" where
  "daily_of r =
     \<lparr> daily_CTR = fillna0 (fmul (fdiv (Fin (clicks r)) (Fin (impressions r))) (Fin 100)),
       daily_LP_View_Rate = fillna0 (fmul (fdiv (Fin (lp_views r)) (Fin (clicks r))) (Fin 100)),
       daily_ATC_Rate = fillna0 (fmul (fdiv (Fin (adds_to_cart r)) (Fin (lp_views r))) (Fin 100)),
       daily_Checkout_Rate =
         fillna0 (fmul (fdiv (Fin (checkouts r)) (Fin (adds_to_cart r))) (Fin 100)),
       daily_Purchase_Rate =
         fillna0 (fmul (fdiv (Fin (purchases r)) (Fin (checkouts r))) (Fin 100)),
       daily_Overall_CVR = fillna0 (fmul (fdiv (Fin (purchases r)) (Fin (clicks r))) (Fin 100)),
       daily_CPC = fillna0 (fdiv (Fin (spend r)) (Fin (clicks r))),
       daily_CPA = replace_inf0 (fillna0 (fdiv (Fin (spend r)) (Fin (purchases r)))),
       daily_Frequency = fillna0 (fdiv (Fin (impressions r)) (Fin (clicks r))) \<rparr>"

definition calculate_daily_metrics_manual ::
    "('a row_scheme) list \<Rightarrow> ('a row_scheme \<times> daily) list" where
  "calculate_daily_metrics_manual df = map (\<lambda>r. (r, daily_of r)) df"

text \<open>\<^verbatim>\<open>calculate_daily_metrics\<close> of before_metrics_addition.py.\<close>

definition daily_rev_of :: "'a rev_row_scheme \<Rightarrow> daily_rev" where
  "daily_rev_of r =
     \<lparr> daily_CTR = fillna0 (fmul (fdiv (Fin (clicks r)) (Fin (impressions r))) (Fin 100)),
       daily_LP_View_Rate = fillna0 (fmul (fdiv (Fin (lp_views r)) (Fin (clicks r))) (Fin 100)),
       daily_ATC_Rate = fillna0 (fmul (fdiv (Fin (adds_to_cart r)) (Fin (lp_views r))) (Fin 100)),
       daily_Checkout_Rate =
         fillna0 (fmul (fdiv (Fin (checkouts r)) (Fin (adds_to_cart r))) (Fin 100)),
       daily_Purchase_Rate =
         fillna0 (fmul (fdiv (Fin (purchases r)) (Fin (checkouts r))) (Fin 100)),
       daily_Overall_CVR = fillna0 (fmul (fdiv (Fin (purchases r)) (Fin (clicks r))) (Fin 100)),
       daily_CPC = fillna0 (fdiv (Fin (spend r)) (Fin (clicks r))),
       daily_CPA = replace_inf0 (fillna0 (fdiv (Fin (spend r)) (Fin (purchases r)))),
       daily_Frequency = fillna0 (fdiv (Fin (impressions r)) (Fin (clicks r))),
       daily_ROAS = replace_inf0 (fillna0 (fdiv (Fin (revenue r)) (Fin (spend r)))),
       daily_ACoS =
         replace_inf0 (fillna0 (fmul (fdiv (Fin (spend r)) (Fin (revenue r))) (Fin 100))) \<rparr>"

definition calculate_daily_metrics_rev ::
    "('a rev_row_scheme) list \<Rightarrow> ('a rev_row_scheme \<times> daily_rev) list" where
  "calculate_daily_metrics_rev df = map (\<lambda>r. (r, daily_rev_of r)) df"

text \<open>A day with two purchases and no tracked checkout.\<close>

definition direct_purchase_day :: row where
  "direct_purchase_day =
     \<lparr> date = (2024, 1, 1), impressions = 1000, clicks = 50, lp_views = 45,
       adds_to_cart = 10, checkouts = 0, purchases = 2, spend = 500, product = ''p'' \<rparr>"

definition direct_purchase_day_rev :: rev_row where
  "direct_purchase_day_rev =
     \<lparr> date = (2024, 1, 1), impressions = 1000, clicks = 50, lp_views = 45,
       adds_to_cart = 10, checkouts = 0, purchases = 2, spend = 500, product = ''p'',
       reach = 900, frequency = 11 / 10, cpc = 10, ctr = 5, revenue = 1200 \<rparr>"

section \<open>Benchmark classifier\<close>

record benchmark =
  min_b :: rat
  ideal :: rat
  max_b :: rat
  unit_b :: string

text \<open>The rupee sign, U+20B9, in UTF-8.\<close>

definition rupee :: string where
  "rupee = [CHR 0xE2, CHR 0x82, CHR 0xB9]"

text \<open>\<^verbatim>\<open>BENCHMARKS\<close> of appmanual.py and of app.py: a dictionary, in its order.\<close>

definition BENCHMARKS :: "(string \<times> benchmark) list" where
  "BENCHMARKS =
     [(''CTR'', \<lparr> min_b = 9 / 10, ideal = 3 / 2, max_b = 3, unit_b = ''%'' \<rparr>),
      (''LP_View_Rate'', \<lparr> min_b = 80, ideal = 90, max_b = 100, unit_b = ''%'' \<rparr>),
      (''ATC_Rate'', \<lparr> min_b = 10, ideal = 20, max_b = 30, unit_b = ''%'' \<rparr>),
      (''Checkout_Rate'', \<lparr> min_b = 60, ideal = 75, max_b = 85, unit_b = ''%'' \<rparr>),
      (''Purchase_Rate'', \<lparr> min_b = 50, ideal = 65, max_b = 80, unit_b = ''%'' \<rparr>),
      (''Overall_CVR'', \<lparr> min_b = 2, ideal = 5, max_b = 10, unit_b = ''%'' \<rparr>),
      (''CPC'', \<lparr> min_b = 5, ideal = 10, max_b = 15, unit_b = rupee \<rparr>),
      (''CPA'', \<lparr> min_b = 100, ideal = 300, max_b = 500, unit_b = rupee \<rparr>),
      (''Frequency'', \<lparr> min_b = 1, ideal = 11 / 10, max_b = 13 / 10, unit_b = ''x'' \<rparr>)]"

text \<open>\<^verbatim>\<open>BENCHMARKS\<close> of before_metrics_addition.py, with ROAS and ACoS.\<close>

definition BENCHMARKS_rev :: "(string \<times> benchmark) list" where
  "BENCHMARKS_rev =
     [(''CTR'', \<lparr> min_b = 9 / 10, ideal = 3 / 2, max_b = 3, unit_b = ''%'' \<rparr>),
      (''LP_View_Rate'', \<lparr> min_b = 80, ideal = 90, max_b = 100, unit_b = ''%'' \<rparr>),
      (''ATC_Rate'', \<lparr> min_b = 10, ideal = 20, max_b = 30, unit_b = ''%'' \<rparr>),
      (''Checkout_Rate'', \<lparr> min_b = 60, ideal = 75, max_b = 85, unit_b = ''%'' \<rparr>),
      (''Purchase_Rate'', \<lparr> min_b = 50, ideal = 65, max_b = 80, unit_b = ''%'' \<rparr>),
      (''Overall_CVR'', \<lparr> min_b = 2, ideal = 5, max_b = 10, unit_b = ''%'' \<rparr>),
      (''CPC'', \<lparr> min_b = 5, ideal = 10, max_b = 15, unit_b = '''' \<rparr>),
      (''CPA'', \<lparr> min_b = 100, ideal = 300, max_b = 500, unit_b = '''' \<rparr>),
      (''Frequency'', \<lparr> min_b = 1, ideal = 11 / 10, max_b = 13 / 10, unit_b = ''x'' \<rparr>),
      (''ROAS'', \<lparr> min_b = 2, ideal = 4, max_b = 6, unit_b = ''x'' \<rparr>),
      (''ACoS'', \<lparr> min_b = 40, ideal = 25, max_b = 15, unit_b = ''%'' \<rparr>)]"

text \<open>\<^verbatim>\<open>get_status\<close> of appmanual.py.\<close>

definition get_status :: "string \<Rightarrow> fl \<Rightarrow> string" where
  "get_status metric_name v =
     (case map_of BENCHMARKS metric_name of
        None \<Rightarrow> ''neutral''
      | Some bench \<Rightarrow>
          if fle (Fin (ideal bench)) v then ''excellent''
          else if fle (Fin (min_b bench)) v then ''good''
          else ''critical'')"

text \<open>
  The status emojis, in UTF-8: the check mark U+2705, the warning sign U+26A0 U+FE0F, the
  siren U+1F6A8 and the white circle U+26AA.
\<close>

definition emoji_check :: string where
  "emoji_check = [CHR 0xE2, CHR 0x9C, CHR 0x85]"

definition emoji_warning :: string where
  "emoji_warning = [CHR 0xE2, CHR 0x9A, CHR 0xA0, CHR 0xEF, CHR 0xB8, CHR 0x8F]"

definition emoji_siren :: string where
  "emoji_siren = [CHR 0xF0, CHR 0x9F, CHR 0x9A, CHR 0xA8]"

definition emoji_white :: string where
  "emoji_white = [CHR 0xE2, CHR 0x9A, CHR 0xAA]"

text \<open>\<^verbatim>\<open>get_status_emoji\<close> of appmanual.py, through \<^const>\<open>get_status\<close>.\<close>

definition get_status_emoji_manual :: "string \<Rightarrow> fl \<Rightarrow> string" where
  "get_status_emoji_manual metric_name v =
     (let status = get_status metric_name v in
      if status = ''excellent'' then emoji_check
      else if status = ''good'' then emoji_warning
      else emoji_siren)"

text \<open>\<^verbatim>\<open>get_status_emoji\<close> of app.py.\<close>

definition get_status_emoji_api :: "string \<Rightarrow> fl \<Rightarrow> string" where
  "get_status_emoji_api metric_name v =
     (case map_of BENCHMARKS metric_name of
        None \<Rightarrow> emoji_white
      | Some bench \<Rightarrow>
          if fle (Fin (ideal bench)) v then emoji_check
          else if fle (Fin (min_b bench)) v then emoji_warning
          else emoji_siren)"

text \<open>\<^verbatim>\<open>get_status_emoji\<close> of before_metrics_addition.py: for ACoS, lower is better.\<close>

definition get_status_emoji_rev :: "string \<Rightarrow> fl \<Rightarrow> string" where
  "get_status_emoji_rev metric_name v =
     (case map_of BENCHMARKS_rev metric_name of
        None \<Rightarrow> emoji_white
      | Some bench \<Rightarrow>
          if metric_name = ''ACoS'' then
            (if fle v (Fin (max_b bench)) then emoji_check
             else if fle v (Fin (ideal bench)) then emoji_warning
             else emoji_siren)
          else
            (if fle (Fin (ideal bench)) v then emoji_check
             else if fle (Fin (min_b bench)) v then emoji_warning
             else emoji_siren))"

text \<open>A table of rows whose revenue is 6000 on a spend of 1500.\<close>

definition roas_scenario :: "rev_row list" where
  "roas_scenario =
     [\<lparr> date = (2024, 1, 1), impressions = 10000, clicks = 150, lp_views = 135,
        adds_to_cart = 20, checkouts = 14, purchases = 8, spend = 1000, product = ''p'',
        reach = 9000, frequency = 11 / 10, cpc = 10, ctr = 3 / 2, revenue = 4500 \<rparr>,
      \<lparr> date = (2024, 1, 2), impressions = 5000, clicks = 70, lp_views = 60,
        adds_to_cart = 9, checkouts = 6, purchases = 3, spend = 500, product = ''p'',
        reach = 4000, frequency = 5 / 4, cpc = 10, ctr = 7 / 5, revenue = 1500 \<rparr>]"

section \<open>Recommendation engine\<close>

datatype priority = CRITICAL | HIGH | MEDIUM

record issue =
  priority :: priority
  metric :: string
  current :: fl
  target :: rat
  recommendations :: "string list"

text \<open>The dictionary \<^verbatim>\<open>priority_order\<close> of \<^verbatim>\<open>get_recommendations\<close>.\<close>

fun priority_order :: "priority \<Rightarrow> nat" where
  "priority_order CRITICAL = 0"
| "priority_order HIGH = 1"
| "priority_order MEDIUM = 2"

text \<open>
  \<^verbatim>\<open>BENCHMARKS[name]\<close> for a literal name of the table. Every name looked up by
  \<^verbatim>\<open>get_recommendations\<close> is a key of its table.
\<close>

definition bench :: "(string \<times> benchmark) list \<Rightarrow> string \<Rightarrow> benchmark" where
  "bench table name = the (map_of table name)"

text \<open>The rules of appmanual.py, in the order of their declaration.\<close>

definition checkout_issue :: "('t, 'a) metric_set_scheme \<Rightarrow> issue" where
  "checkout_issue metrics =
     \<lparr> priority = CRITICAL,
       metric = ''Checkout Rate'',
       current = Checkout_Rate metrics,
       target = ideal (bench BENCHMARKS ''Checkout_Rate''),
       recommendations =
         [''Enable guest checkout to reduce friction'',
          ''Add multiple payment options (UPI, COD, Cards)'',
          ''Display shipping costs earlier in the funnel'',
          ''Simplify checkout to 1-2 steps maximum'',
          ''Add trust badges and security indicators'',
          ''Optimize mobile checkout experience''] \<rparr>"

definition lp_view_issue :: "('t, 'a) metric_set_scheme \<Rightarrow> issue" where
  "lp_view_issue metrics =
     \<lparr> priority = HIGH,
       metric = ''Landing Page View Rate'',
       current = LP_View_Rate metrics,
       target = ideal (bench BENCHMARKS ''LP_View_Rate''),
       recommendations =
         [''Improve page load speed (compress images, use CDN)'',
          ''Optimize for mobile devices'',
          ''Check for broken links or redirects'',
          ''Ensure landing page matches ad promise''] \<rparr>"

definition purchase_issue :: "('t, 'a) metric_set_scheme \<Rightarrow> issue" where
  "purchase_issue metrics =
     \<lparr> priority = MEDIUM,
       metric = ''Purchase Completion Rate'',
       current = Purchase_Rate metrics,
       target = ideal (bench BENCHMARKS ''Purchase_Rate''),
       recommendations =
         [''Add exit-intent popups with discount offers'',
          ''Implement cart abandonment email sequence'',
          ''Show limited stock/urgency indicators'',
          ''Offer free shipping threshold'',
          ''Add live chat support during checkout''] \<rparr>"

definition ctr_issue :: "('t, 'a) metric_set_scheme \<Rightarrow> issue" where
  "ctr_issue metrics =
     \<lparr> priority = MEDIUM,
       metric = ''Click-Through Rate'',
       current = CTR metrics,
       target = ideal (bench BENCHMARKS ''CTR''),
       recommendations =
         [''Test different ad creatives and copy'',
          ''Improve ad targeting to reach more relevant audience'',
          ''Use more compelling calls-to-action'',
          ''A/B test different images and videos'',
          ''Ensure ad relevance matches landing page''] \<rparr>"

text \<open>
  The list \<^verbatim>\<open>issues\<close> of appmanual.py before it is sorted: each rule whose condition
  holds appends its issue.
\<close>

definition issues_manual :: "('t, 'a) metric_set_scheme \<Rightarrow> issue list" where
  "issues_manual metrics =
     (let issues = [];
          issues = (if fless (Checkout_Rate metrics) (Fin (min_b (bench BENCHMARKS ''Checkout_Rate'')))
                    then issues @ [checkout_issue metrics] else issues);
          issues = (if fless (LP_View_Rate metrics) (Fin (min_b (bench BENCHMARKS ''LP_View_Rate'')))
                    then issues @ [lp_view_issue metrics] else issues);
          issues = (if fless (Purchase_Rate metrics) (Fin (min_b (bench BENCHMARKS ''Purchase_Rate'')))
                    then issues @ [purchase_issue metrics] else issues);
          issues = (if fless (CTR metrics) (Fin (min_b (bench BENCHMARKS ''CTR'')))
                    then issues @ [ctr_issue metrics] else issues)
      in issues)"

text \<open>
  \<^verbatim>\<open>get_recommendations\<close> of appmanual.py. Python's \<^verbatim>\<open>list.sort\<close> is stable; so is
  the insertion sort \<^const>\<open>sort_key\<close>.
\<close>

definition get_recommendations_manual :: "('t, 'a) metric_set_scheme \<Rightarrow> issue list" where
  "get_recommendations_manual metrics =
     sort_key (\<lambda>x. priority_order (priority x)) (issues_manual metrics)"

text \<open>The rules of before_metrics_addition.py, in the order of their declaration.\<close>

definition checkout_issue_rev :: "('t, 'a) metric_set_rev_scheme \<Rightarrow> issue" where
  "checkout_issue_rev metrics =
     \<lparr> priority = CRITICAL,
       metric = ''Checkout Rate'',
       current = Checkout_Rate metrics,
       target = ideal (bench BENCHMARKS_rev ''Checkout_Rate''),
       recommendations =
         [''Enable guest checkout to reduce friction'',
          ''Add multiple payment options (UPI, COD, Cards)'',
          ''Display shipping costs earlier in the funnel'',
          ''Simplify checkout to 1-2 steps maximum'',
          ''Add trust badges and security indicators''] \<rparr>"

definition lp_view_issue_rev :: "('t, 'a) metric_set_rev_scheme \<Rightarrow> issue" where
  "lp_view_issue_rev metrics =
     \<lparr> priority = HIGH,
       metric = ''Landing Page View Rate'',
       current = LP_View_Rate metrics,
       target = ideal (bench BENCHMARKS_rev ''LP_View_Rate''),
       recommendations =
         [''Improve page load speed (compress images, use CDN)'',
          ''Optimize for mobile devices'',
          ''Check for broken links or redirects'',
          ''Ensure landing page matches ad promise''] \<rparr>"

definition ctr_issue_rev :: "('t, 'a) metric_set_rev_scheme \<Rightarrow> issue" where
  "ctr_issue_rev metrics =
     \<lparr> priority = MEDIUM,
       metric = ''Click-Through Rate'',
       current = CTR metrics,
       target = ideal (bench BENCHMARKS_rev ''CTR''),
       recommendations =
         [''Test different ad creatives and copy'',
          ''Improve ad targeting to reach more relevant audience'',
          ''Use more compelling calls-to-action'',
          ''A/B test different images and videos''] \<rparr>"

definition roas_issue_rev :: "('t, 'a) metric_set_rev_scheme \<Rightarrow> issue" where
  "roas_issue_rev metrics =
     \<lparr> priority = CRITICAL,
       metric = ''ROAS (Return on Ad Spend)'',
       current = ROAS metrics,
       target = ideal (bench BENCHMARKS_rev ''ROAS''),
       recommendations =
         [''Increase product prices or average order value'',
          ''Improve conversion rate throughout funnel'',
          ''Reduce ad spend on underperforming campaigns'',
          ''Focus on high-value customer segments'',
          ''Optimize product mix for profitability''] \<rparr>"

definition acos_issue_rev :: "('t, 'a) metric_set_rev_scheme \<Rightarrow> issue" where
  "acos_issue_rev metrics =
     \<lparr> priority = HIGH,
       metric = ''ACoS (Advertising Cost of Sales)'',
       current = ACoS metrics,
       target = ideal (bench BENCHMARKS_rev ''ACoS''),
       recommendations =
         [''Reduce cost per click through better targeting'',
          ''Improve conversion rate to lower CPA'',
          ''Pause underperforming ad sets'',
          ''Focus on audiences with lower CPAs'',
          ''Optimize bidding strategy''] \<rparr>"

definition issues_rev :: "('t, 'a) metric_set_rev_scheme \<Rightarrow> issue list" where
  "issues_rev metrics =
     (let issues = [];
          issues = (if fless (Checkout_Rate metrics) (Fin (min_b (bench BENCHMARKS_rev ''Checkout_Rate'')))
                    then issues @ [checkout_issue_rev metrics] else issues);
          issues = (if fless (LP_View_Rate metrics) (Fin (min_b (bench BENCHMARKS_rev ''LP_View_Rate'')))
                    then issues @ [lp_view_issue_rev metrics] else issues);
          issues = (if fless (CTR metrics) (Fin (min_b (bench BENCHMARKS_rev ''CTR'')))
                    then issues @ [ctr_issue_rev metrics] else issues);
          issues = (if fless (ROAS metrics) (Fin (min_b (bench BENCHMARKS_rev ''ROAS'')))
                    then issues @ [roas_issue_rev metrics] else issues);
          issues = (if fless (Fin (ideal (bench BENCHMARKS_rev ''ACoS''))) (ACoS metrics)
                    then issues @ [acos_issue_rev metrics] else issues)
      in issues)"

definition get_recommendations_rev :: "('t, 'a) metric_set_rev_scheme \<Rightarrow> issue list" where
  "get_recommendations_rev metrics =
     sort_key (\<lambda>x. priority_order (priority x)) (issues_rev metrics)"

text \<open>The conditions of the rules, as the source writes them.\<close>

definition checkout_low :: "('t, 'a) metric_set_scheme \<Rightarrow> bool" where
  "checkout_low metrics \<longleftrightarrow> fless (Checkout_Rate metrics) (Fin 60)"

definition lp_view_low :: "('t, 'a) metric_set_scheme \<Rightarrow> bool" where
  "lp_view_low metrics \<longleftrightarrow> fless (LP_View_Rate metrics) (Fin 80)"

definition purchase_low :: "('t, 'a) metric_set_scheme \<Rightarrow> bool" where
  "purchase_low metrics \<longleftrightarrow> fless (Purchase_Rate metrics) (Fin 50)"

definition ctr_low :: "('t, 'a) metric_set_scheme \<Rightarrow> bool" where
  "ctr_low metrics \<longleftrightarrow> fless (CTR metrics) (Fin (9 / 10))"

definition roas_low :: "('t, 'a) metric_set_scheme \<Rightarrow> bool" where
  "roas_low metrics \<longleftrightarrow> fless (ROAS metrics) (Fin 2)"

definition acos_high :: "('t, 'a) metric_set_rev_scheme \<Rightarrow> bool" where
  "acos_high metrics \<longleftrightarrow> fless (Fin 25) (ACoS metrics)"

text \<open>A list with one element when the condition holds, and none otherwise.\<close>

definition one_if :: "bool \<Rightarrow> 'a \<Rightarrow> 'a list" where
  "one_if c x = (if c then [x] else [])"

text \<open>A Metric Set with every rate at 100 and one with every rate at 0.\<close>

definition healthy_metrics :: "totals metric_set" where
  "healthy_metrics =
     \<lparr> CTR = Fin 100, LP_View_Rate = Fin 100, ATC_Rate = Fin 100, Checkout_Rate = Fin 100,
       Purchase_Rate = Fin 100, Overall_CVR = Fin 100, CPC = Fin 10, CPA = Fin 300,
       ROAS = Fin 4, Frequency = Fin 1, totals = zero_totals \<rparr>"

definition healthy_metrics_rev :: "totals_rev metric_set_rev" where
  "healthy_metrics_rev =
     \<lparr> CTR = Fin 100, LP_View_Rate = Fin 100, ATC_Rate = Fin 100, Checkout_Rate = Fin 100,
       Purchase_Rate = Fin 100, Overall_CVR = Fin 100, CPC = Fin 10, CPA = Fin 300,
       ROAS = Fin 4, Frequency = Fin 1,
       totals =
         \<lparr> total_impressions = Fin 0, total_clicks = Fin 0, total_lp_views = Fin 0,
           total_adds_to_cart = Fin 0, total_checkouts = Fin 0, total_purchases = Fin 0,
           total_spend = Fin 0, total_revenue = Fin 0 \<rparr>,
       ACoS = Fin 25 \<rparr>"




section \<open>Rows from API insight records\<close>

text \<open>Python's \<^verbatim>\<open>sub in s\<close> on strings: \<open>sub\<close> occurs in \<open>s\<close> as a contiguous piece.\<close>

fun str_in :: "string \<Rightarrow> string \<Rightarrow> bool" where
  "str_in sub [] = (sub = [])"
| "str_in sub (c # cs) = (prefix sub (c # cs) \<or> str_in sub cs)"

text \<open>
  One entry of the \<^verbatim>\<open>actions\<close> list of an insight record. The API gives the value as
  text; here it is the integer that \<^verbatim>\<open>int(action.get('value', 0))\<close> returns. A record on
  which a conversion raises is not normalized into a row: \<^verbatim>\<open>fetch_campaign_data\<close> then
  returns no table and the text of the error.
\<close>

record action =
  action_type :: string
  action_value :: int

text \<open>One entry of the \<^verbatim>\<open>action_values\<close> list: the value is an amount of money.\<close>

record action_amount =
  amount_type :: string
  amount :: rat

text \<open>
  An insight record, with the fields that the loop reads. A key that the record lacks
  reads as the default of its \<^verbatim>\<open>get\<close>: 0, or the empty list.
\<close>

record insight =
  ins_date_start :: timestamp
  ins_campaign_name :: string
  ins_impressions :: int
  ins_clicks :: int
  ins_spend :: rat
  ins_reach :: int
  ins_frequency :: rat
  ins_cpc :: rat
  ins_ctr :: rat
  ins_actions :: "action list"

record insight_rev = insight +
  ins_entity_name :: string
  ins_action_values :: "action_amount list"

text \<open>The body of the loop over \<^verbatim>\<open>actions\<close>: an \<^verbatim>\<open>if\<close>/\<^verbatim>\<open>elif\<close> chain.\<close>

definition apply_action :: "'a row_scheme \<Rightarrow> action \<Rightarrow> 'a row_scheme" where
  "apply_action row a =
     (let action_type = action_type a;
          v = of_int (action_value a)
      in
      if str_in ''landing_page_view'' action_type then row\<lparr>lp_views := v\<rparr>
      else if str_in ''add_to_cart'' action_type
              \<or> action_type = ''offsite_conversion.fb_pixel_add_to_cart''
        then row\<lparr>adds_to_cart := v\<rparr>
      else if str_in ''initiate_checkout'' action_type
              \<or> action_type = ''offsite_conversion.fb_pixel_initiate_checkout''
        then row\<lparr>checkouts := v\<rparr>
      else if str_in ''purchase'' action_type
              \<or> action_type = ''offsite_conversion.fb_pixel_purchase''
        then row\<lparr>purchases := v\<rparr>
      else row)"

definition extract_actions :: "'a row_scheme \<Rightarrow> action list \<Rightarrow> 'a row_scheme" where
  "extract_actions row actions = foldl apply_action row actions"

text \<open>The row that \<^verbatim>\<open>fetch_campaign_data\<close> (app.py) builds from one insight record.\<close>

definition insight_row :: "'a insight_scheme \<Rightarrow> api_row" where
  "insight_row ins =
     extract_actions
       \<lparr> date = ins_date_start ins,
         impressions = of_int (ins_impressions ins),
         clicks = of_int (ins_clicks ins),
         lp_views = 0,
         adds_to_cart = 0,
         checkouts = 0,
         purchases = 0,
         spend = ins_spend ins,
         product = ins_campaign_name ins,
         reach = of_int (ins_reach ins),
         frequency = ins_frequency ins,
         cpc = ins_cpc ins,
         ctr = ins_ctr ins \<rparr>
       (ins_actions ins)"

text \<open>The average order value of before_metrics_addition.py.\<close>

definition AOV :: rat where
  "AOV = 600"

text \<open>
  The row that \<^verbatim>\<open>fetch_data\<close> (before_metrics_addition.py) builds from one insight
  record: the same loop over \<^verbatim>\<open>actions\<close>, then the revenue of the first purchase entry
  of \<^verbatim>\<open>action_values\<close>, or else the purchases at the average order value. The name of the
  entity, which depends on the level of the report, becomes the product.
\<close>

definition insight_row_rev :: "'a insight_rev_scheme \<Rightarrow> rev_row" where
  "insight_row_rev ins =
     (let row = extract_actions
            \<lparr> date = ins_date_start ins,
              impressions = of_int (ins_impressions ins),
              clicks = of_int (ins_clicks ins),
              lp_views = 0,
              adds_to_cart = 0,
              checkouts = 0,
              purchases = 0,
              spend = ins_spend ins,
              product = ins_entity_name ins,
              reach = of_int (ins_reach ins),
              frequency = ins_frequency ins,
              cpc = ins_cpc ins,
              ctr = ins_ctr ins,
              revenue = 0 \<rparr>
            (ins_actions ins)
      in
      case find (\<lambda>av. str_in ''purchase'' (amount_type av)
                       \<or> amount_type av = ''offsite_conversion.fb_pixel_purchase'')
             (ins_action_values ins) of
        Some av \<Rightarrow> row\<lparr>revenue := amount av\<rparr>
      | None \<Rightarrow> if 0 < purchases row then row\<lparr>revenue := purchases row * AOV\<rparr> else row)"

text \<open>
  The value of the last entry of a list of actions that satisfies \<open>P\<close>, and 0 when no
  entry does.
\<close>

definition last_value :: "(string \<Rightarrow> bool) \<Rightarrow> action list \<Rightarrow> rat" where
  "last_value P actions =
     (let matching = filter (\<lambda>a. P (action_type a)) actions
      in if matching = [] then 0 else of_int (action_value (last matching)))"

text \<open>The tests of the four branches, as the source writes them.\<close>

definition lp_test :: "string \<Rightarrow> bool" where
  "lp_test t \<longleftrightarrow> str_in ''landing_page_view'' t"

definition atc_test :: "string \<Rightarrow> bool" where
  "atc_test t \<longleftrightarrow>
     str_in ''add_to_cart'' t \<or> t = ''offsite_conversion.fb_pixel_add_to_cart''"

definition checkout_test :: "string \<Rightarrow> bool" where
  "checkout_test t \<longleftrightarrow>
     str_in ''initiate_checkout'' t \<or> t = ''offsite_conversion.fb_pixel_initiate_checkout''"

definition purchase_test :: "string \<Rightarrow> bool" where
  "purchase_test t \<longleftrightarrow> str_in ''purchase'' t \<or> t = ''offsite_conversion.fb_pixel_purchase''"

text \<open>
  An insight record with one action, whose type contains both \<^verbatim>\<open>add_to_cart\<close> and
  \<^verbatim>\<open>purchase\<close>, and one with two purchase actions.
\<close>

definition mixed_insight :: insight where
  "mixed_insight =
     \<lparr> ins_date_start = (2024, 1, 1), ins_campaign_name = ''c'', ins_impressions = 1000,
       ins_clicks = 50, ins_spend = 500, ins_reach = 900, ins_frequency = 11 / 10,
       ins_cpc = 10, ins_ctr = 5,
       ins_actions = [\<lparr> action_type = ''add_to_cart_purchase'', action_value = 5 \<rparr>] \<rparr>"

definition purchase_insight :: insight where
  "purchase_insight =
     \<lparr> ins_date_start = (2024, 1, 1), ins_campaign_name = ''c'', ins_impressions = 1000,
       ins_clicks = 50, ins_spend = 500, ins_reach = 900, ins_frequency = 11 / 10,
       ins_cpc = 10, ins_ctr = 5,
       ins_actions =
         [\<lparr> action_type = ''purchase'', action_value = 4 \<rparr>,
          \<lparr> action_type = ''link_click'', action_value = 50 \<rparr>,
          \<lparr> action_type = ''omni_purchase'', action_value = 6 \<rparr>] \<rparr>"

section \<open>Schema normalizer\<close>

text \<open>
  A cell of a sheet, as pandas reads it: a text, a number, a date, or nothing (NaN). The
  labels of the columns come from the cells of the header row: pandas keeps a number or
  a date as it is, and names an empty header cell with a text.
\<close>

datatype cell = CStr string | CNum rat | CDate timestamp | CEmpty

datatype label = LStr string | LNum rat | LDate timestamp

record frame =
  columns :: "label list"
  rows :: "cell list list"

datatype error = AttributeError | KeyError

text \<open>
  The library functions that the normalizer calls are parameters of the model where
  their result depends on the parser of pandas or on the formatting of Python:
  \<^verbatim>\<open>pd.to_datetime\<close> and \<^verbatim>\<open>pd.to_numeric\<close> on a text, the one on a number and the
  other on a date, and \<^verbatim>\<open>str\<close> on a number and on a date. The values that
  \<^verbatim>\<open>pd.to_numeric\<close> yields are taken to be finite.
\<close>

datatype dt_result = Raises | NaT | Timestamp timestamp

record pandas =
  datetime_of_text :: "string \<Rightarrow> dt_result"
  datetime_of_number :: "rat \<Rightarrow> dt_result"
  numeric_of_text :: "string \<Rightarrow> rat option"
  numeric_of_date :: "timestamp \<Rightarrow> rat option"
  text_of_number :: "rat \<Rightarrow> string"
  text_of_date :: "timestamp \<Rightarrow> string"

text \<open>\<^verbatim>\<open>pd.to_datetime(x)\<close> on one value: a date is itself, and NaN gives NaT.\<close>

fun to_datetime :: "pandas \<Rightarrow> cell \<Rightarrow> dt_result" where
  "to_datetime P (CStr s) = datetime_of_text P s"
| "to_datetime P (CNum x) = datetime_of_number P x"
| "to_datetime P (CDate d) = Timestamp d"
| "to_datetime P CEmpty = NaT"

text \<open>
  \<^verbatim>\<open>pd.to_datetime(column, errors='coerce')\<close>, element by element: what does not parse
  becomes NaT, here \<open>None\<close>. On a column of texts pandas takes the format of the first
  text for the whole column, and a later text in another format becomes NaT as well:
  the model is that of a column whose texts share one format, as any column of one row
  does.
\<close>

definition to_datetime_coerce :: "pandas \<Rightarrow> cell \<Rightarrow> timestamp option" where
  "to_datetime_coerce P c = (case to_datetime P c of Timestamp d \<Rightarrow> Some d | _ \<Rightarrow> None)"

text \<open>
  \<^verbatim>\<open>pd.to_numeric(column, errors='coerce')\<close>, element by element: what does not parse
  becomes NaN, here \<open>None\<close>.
\<close>

fun to_numeric :: "pandas \<Rightarrow> cell \<Rightarrow> rat option" where
  "to_numeric P (CStr s) = numeric_of_text P s"
| "to_numeric P (CNum x) = Some x"
| "to_numeric P (CDate d) = numeric_of_date P d"
| "to_numeric P CEmpty = None"

text \<open>\<^verbatim>\<open>str(x)\<close> and \<^verbatim>\<open>astype(str)\<close> on one value.\<close>

fun py_str :: "pandas \<Rightarrow> cell \<Rightarrow> string" where
  "py_str P (CStr s) = s"
| "py_str P (CNum x) = text_of_number P x"
| "py_str P (CDate d) = text_of_date P d"
| "py_str P CEmpty = ''nan''"

text \<open>
  \<^verbatim>\<open>str.lower\<close> and \<^verbatim>\<open>str.strip\<close>, on ASCII: the letters A to Z, and the white space
  of Python below 128.
\<close>

definition lower_char :: "char \<Rightarrow> char" where
  "lower_char c =
     (let n = (of_char c :: nat) in if 65 \<le> n \<and> n \<le> 90 then char_of (n + 32) else c)"

definition lower :: "string \<Rightarrow> string" where
  "lower s = map lower_char s"

definition is_space :: "char \<Rightarrow> bool" where
  "is_space c \<longleftrightarrow>
     (let n = (of_char c :: nat) in (9 \<le> n \<and> n \<le> 13) \<or> (28 \<le> n \<and> n \<le> 32))"

definition strip :: "string \<Rightarrow> string" where
  "strip s = rev (dropWhile is_space (rev (dropWhile is_space s)))"

definition COLUMN_SYNONYMS :: "(string \<times> string list) list" where
  "COLUMN_SYNONYMS =
     [(''date'', [''day'', ''date'']),
      (''impressions'', [''impressions'']),
      (''clicks'', [''clicks (all)'', ''link clicks'', ''clicks'']),
      (''lp_views'', [''landing page views'', ''landing page view'']),
      (''adds_to_cart'', [''adds to cart'', ''add to cart'']),
      (''checkouts'', [''checkouts initiated'', ''checkout'']),
      (''spend'', [''amount spent'']),
      (''purchases'', [''results'', ''website purchase''])]"

text \<open>
  \<^verbatim>\<open>detect_header_row\<close>: the first of the first ten rows with a cell whose lowered text
  contains \<^verbatim>\<open>impression\<close> or \<^verbatim>\<open>day\<close>, and row 0 when there is none.
\<close>

definition row_is_header :: "pandas \<Rightarrow> cell list \<Rightarrow> bool" where
  "row_is_header P row \<longleftrightarrow>
     (let row_str = map (\<lambda>c. lower (py_str P c)) row
      in list_ex (str_in ''impression'') row_str \<or> list_ex (str_in ''day'') row_str)"

definition detect_header_row :: "pandas \<Rightarrow> cell list list \<Rightarrow> nat" where
  "detect_header_row P df =
     (case find (\<lambda>i. row_is_header P (df ! i)) [0 ..< min 10 (length df)] of
        Some i \<Rightarrow> i
      | None \<Rightarrow> 0)"

text \<open>
  The dictionary \<^verbatim>\<open>lower_cols\<close> of \<^verbatim>\<open>normalize_columns\<close>, in the order of its keys: a
  label met again in another case keeps the place of the first and takes the name of the
  last. A label that is not a text has no \<^verbatim>\<open>lower\<close>, and the comprehension raises.
\<close>

fun lower_cols_of :: "label list \<Rightarrow> (string \<times> string) list \<Rightarrow> error + (string \<times> string) list" where
  "lower_cols_of [] acc = Inr acc"
| "lower_cols_of (LStr c # cs) acc = lower_cols_of cs (AList.update (lower c) c acc)"
| "lower_cols_of (LNum x # cs) acc = Inl AttributeError"
| "lower_cols_of (LDate d # cs) acc = Inl AttributeError"

text \<open>The loop over the columns for one synonym, and the loop over the synonyms of a key.\<close>

definition match_column :: "string \<Rightarrow> (string \<times> string) list \<Rightarrow> string option" where
  "match_column syn lower_cols =
     map_option snd (find (\<lambda>(col, name). str_in syn col) lower_cols)"

fun match_synonyms :: "string list \<Rightarrow> (string \<times> string) list \<Rightarrow> string option" where
  "match_synonyms [] lower_cols = None"
| "match_synonyms (syn # synonyms) lower_cols =
     (case match_column syn lower_cols of
        Some name \<Rightarrow> Some name
      | None \<Rightarrow> match_synonyms synonyms lower_cols)"

text \<open>\<^verbatim>\<open>normalize_columns\<close>: the dictionary \<^verbatim>\<open>mapping\<close>, in the order of its keys.\<close>

definition normalize_columns :: "'a frame_scheme \<Rightarrow> error + (string \<times> string) list" where
  "normalize_columns df =
     (case lower_cols_of (columns df) [] of
        Inl e \<Rightarrow> Inl e
      | Inr lower_cols \<Rightarrow>
          Inr (concat (map (\<lambda>(key, synonyms).
                 case match_synonyms synonyms lower_cols of
                   None \<Rightarrow> []
                 | Some name \<Rightarrow> [(key, name)]) COLUMN_SYNONYMS)))"

text \<open>
  \<^verbatim>\<open>row[col]\<close> for a column name that \<^verbatim>\<open>normalize_columns\<close> took from the labels of the
  table. A row that is shorter than the header has NaN there.
\<close>

definition cell_at :: "'a frame_scheme \<Rightarrow> cell list \<Rightarrow> string \<Rightarrow> cell" where
  "cell_at df row col =
     (case map_of (zip (columns df) row) (LStr col) of Some c \<Rightarrow> c | None \<Rightarrow> CEmpty)"

text \<open>
  \<^verbatim>\<open>split_data_and_notes\<close>: a row whose date cell \<^verbatim>\<open>pd.to_datetime\<close> accepts is a data
  row; of any other row the text of the date cell is a note, unless it is blank, nan or
  none.
\<close>

fun split_data_and_notes ::
    "pandas \<Rightarrow> 'a frame_scheme \<Rightarrow> string \<Rightarrow> cell list list \<Rightarrow> cell list list \<times> string list" where
  "split_data_and_notes P df date_col [] = ([], [])"
| "split_data_and_notes P df date_col (row # rest) =
     (let (data_rows, notes) = split_data_and_notes P df date_col rest in
      case to_datetime P (cell_at df row date_col) of
        Raises \<Rightarrow>
          (let txt = strip (py_str P (cell_at df row date_col)) in
           if txt \<noteq> [] \<and> lower txt \<noteq> ''nan'' \<and> lower txt \<noteq> ''none''
           then (data_rows, txt # notes) else (data_rows, notes))
      | _ \<Rightarrow> (row # data_rows, notes))"

text \<open>
  One row of the table \<^verbatim>\<open>clean\<close>: the date coerced, each number coerced with NaN filled
  by 0. The rows whose date is NaT are dropped.
\<close>

definition numeric_at ::
    "pandas \<Rightarrow> 'a frame_scheme \<Rightarrow> (string \<times> string) list \<Rightarrow> cell list \<Rightarrow> string \<Rightarrow> rat" where
  "numeric_at P df col_map row key =
     (case to_numeric P (cell_at df row (the (map_of col_map key))) of
        None \<Rightarrow> 0
      | Some x \<Rightarrow> x)"

definition clean_row ::
    "pandas \<Rightarrow> 'a frame_scheme \<Rightarrow> (string \<times> string) list \<Rightarrow> string \<Rightarrow> cell list \<Rightarrow> row option" where
  "clean_row P df col_map sheet_name row =
     (case to_datetime_coerce P (cell_at df row (the (map_of col_map ''date''))) of
        None \<Rightarrow> None
      | Some d \<Rightarrow>
          Some \<lparr> date = d,
                 impressions = numeric_at P df col_map row ''impressions'',
                 clicks = numeric_at P df col_map row ''clicks'',
                 lp_views = numeric_at P df col_map row ''lp_views'',
                 adds_to_cart = numeric_at P df col_map row ''adds_to_cart'',
                 checkouts = numeric_at P df col_map row ''checkouts'',
                 purchases = numeric_at P df col_map row ''purchases'',
                 spend = numeric_at P df col_map row ''spend'',
                 product = sheet_name \<rparr>)"

definition required :: "string list" where
  "required =
     [''impressions'', ''clicks'', ''lp_views'', ''adds_to_cart'', ''checkouts'', ''spend'',
      ''purchases'']"

text \<open>
  \<^verbatim>\<open>clean_sheet\<close>. The file is the function from a header row to the table that
  \<^verbatim>\<open>pd.read_excel\<close> reads with that header. The result is the table, or \<open>None\<close>, and
  the notes; or the error that is raised: by \<^verbatim>\<open>normalize_columns\<close>, or by the lookup of
  the date column in the table of data rows, which has no column when there is no data
  row.
\<close>

definition clean_sheet ::
    "pandas \<Rightarrow> cell list list \<Rightarrow> string \<Rightarrow> (nat \<Rightarrow> frame) \<Rightarrow>
     error + (row list option \<times> string list)" where
  "clean_sheet P raw_df sheet_name uploaded_file =
     (let header_row = detect_header_row P raw_df;
          df = uploaded_file header_row
      in
      case normalize_columns df of
        Inl e \<Rightarrow> Inl e
      | Inr col_map \<Rightarrow>
          (case map_of col_map ''date'' of
             None \<Rightarrow> Inr (None, [])
           | Some date_col \<Rightarrow>
               (let (df_data, notes) = split_data_and_notes P df date_col (rows df) in
                if \<exists>r \<in> set required. map_of col_map r = None then Inr (None, notes)
                else if df_data = [] then Inl KeyError
                else Inr (Some (List.map_filter (clean_row P df col_map sheet_name) df_data),
                          notes))))"

text \<open>
  A reading of the sheet with a given header row: the cells of that row are the labels,
  an empty cell being named after its position, and the rows below it are the rows of
  the table. The renaming that pandas does of a label met twice is left out: this is the
  table of a sheet whose header cells are distinct.
\<close>

function show_nat :: "nat \<Rightarrow> string" where
  "show_nat n =
     (if n < 10 then [char_of (48 + n)]
      else show_nat (n div 10) @ [char_of (48 + n mod 10)])"
  by pat_completeness auto
termination
  by (relation "measure id") auto

fun header_label :: "nat \<times> cell \<Rightarrow> label" where
  "header_label (k, CStr s) = LStr s"
| "header_label (k, CNum x) = LNum x"
| "header_label (k, CDate d) = LDate d"
| "header_label (k, CEmpty) = LStr (''Unnamed: '' @ show_nat k)"

definition read_excel :: "cell list list \<Rightarrow> nat \<Rightarrow> frame" where
  "read_excel sheet header =
     \<lparr> columns = map header_label (enumerate 0 (sheet ! header)),
       rows = drop (Suc header) sheet \<rparr>"

text \<open>
  An instance of the library parameters that reads the one text \<^verbatim>\<open>2024-01-01\<close> as a
  date and no text as a number.
\<close>

definition sample_pandas :: pandas where
  "sample_pandas =
     \<lparr> datetime_of_text = (\<lambda>s. if s = ''2024-01-01'' then Timestamp (2024, 1, 1) else Raises),
       datetime_of_number = (\<lambda>x. Timestamp (1970, 1, 1)),
       numeric_of_text = (\<lambda>s. None),
       numeric_of_date = (\<lambda>d. None),
       text_of_number = (\<lambda>x. ''0''),
       text_of_date = (\<lambda>d. ''2024-01-01 00:00:00'') \<rparr>"

text \<open>The sheet of the round trip: its header row and its one data row.\<close>

definition round_trip_header :: "string list" where
  "round_trip_header =
     [''Day'', ''Impressions'', ''Link clicks'', ''Landing page views'', ''Adds to cart'',
      ''Checkouts initiated'', ''Amount spent'', ''Results'']"

definition round_trip_row :: "cell \<Rightarrow> cell list" where
  "round_trip_row day =
     [day, CNum 1000, CNum 50, CNum 45, CNum 10, CNum 7, CNum 500, CNum 4]"

definition round_trip_sheet :: "cell \<Rightarrow> cell list list" where
  "round_trip_sheet day = [map CStr round_trip_header, round_trip_row day]"

text \<open>A sheet with a year as a header cell and no date column.\<close>

definition year_sheet :: "cell list list" where
  "year_sheet = [[CStr ''Impressions'', CNum 2024], [CNum 1000, CNum 5]]"

text \<open>A sheet with a date column and a year as a header cell, without the other fields.\<close>

definition day_year_sheet :: "cell list list" where
  "day_year_sheet = [[CStr ''Day'', CNum 2024], [CDate (2024, 1, 1), CNum 5]]"

text \<open>Sheets whose header cells are texts: with no date column, and with only that.\<close>

definition no_date_sheet :: "cell list list" where
  "no_date_sheet = [[CStr ''Impressions'', CStr ''Clicks''], [CNum 1000, CNum 5]]"

definition only_date_sheet :: "cell list list" where
  "only_date_sheet =
     [[CStr ''Day'', CStr ''Impressions''],
      [CDate (2024, 1, 1), CNum 1000],
      [CStr ''paused'', CEmpty]]"

section \<open>The operations on objects in a store\<close>

text \<open>
  A table, a Metric Set and a list of issues are mutable objects of Python. To state
  that an operation leaves its input as it was, the operations of appmanual.py are also
  modelled on a store: a list of objects, an address being a position in it. A new
  object goes to the end of the store.
\<close>

datatype obj =
  Frame "row list"
| DailyFrame "(row \<times> daily) list"
| MetricSet "totals metric_set"
| IssueList "issue list"

type_synonym store = "obj list"

definition alloc :: "store \<Rightarrow> obj \<Rightarrow> nat \<times> store" where
  "alloc h v = (length h, h @ [v])"

text \<open>\<^verbatim>\<open>df.copy()\<close>: a new table with the rows of the table at \<open>df\<close>.\<close>

definition df_copy :: "store \<Rightarrow> nat \<Rightarrow> (nat \<times> store) option" where
  "df_copy h df =
     (if df < length h
      then (case h ! df of Frame rs \<Rightarrow> Some (alloc h (Frame rs)) | _ \<Rightarrow> None)
      else None)"

text \<open>
  \<^verbatim>\<open>calculate_daily_metrics\<close>: the copy is made, and the assignments of the new columns
  change the object at the address \<open>daily\<close> of the copy.
\<close>

definition calculate_daily_metrics_st :: "store \<Rightarrow> nat \<Rightarrow> (nat \<times> store) option" where
  "calculate_daily_metrics_st h df =
     (case df_copy h df of
        None \<Rightarrow> None
      | Some (daily, h1) \<Rightarrow>
          (case h1 ! daily of
             Frame rs \<Rightarrow> Some (daily, h1[daily := DailyFrame (calculate_daily_metrics_manual rs)])
           | _ \<Rightarrow> None))"

text \<open>\<^verbatim>\<open>calculate_metrics\<close>: the table at \<open>df\<close> is read, and a new dictionary returned.\<close>

definition calculate_metrics_st :: "store \<Rightarrow> nat \<Rightarrow> (nat \<times> store) option" where
  "calculate_metrics_st h df =
     (if df < length h
      then (case h ! df of
              Frame rs \<Rightarrow> Some (alloc h (MetricSet (calculate_metrics_manual rs)))
            | _ \<Rightarrow> None)
      else None)"

text \<open>
  \<^verbatim>\<open>get_recommendations\<close>: the Metric Set at \<open>metrics\<close> is read; the list \<^verbatim>\<open>issues\<close> is
  a new object, which the appends and the sort change in place.
\<close>

definition get_recommendations_st :: "store \<Rightarrow> nat \<Rightarrow> (nat \<times> store) option" where
  "get_recommendations_st h metrics =
     (if metrics < length h
      then (case h ! metrics of
              MetricSet m \<Rightarrow>
                (let (issues, h1) = alloc h (IssueList []);
                     h2 = h1[issues := IssueList (issues_manual m)];
                     h3 = (case h2 ! issues of
                             IssueList xs \<Rightarrow>
                               h2[issues := IssueList (sort_key (\<lambda>x. priority_order (priority x)) xs)]
                           | _ \<Rightarrow> h2)
                 in Some (issues, h3))
            | _ \<Rightarrow> None)
      else None)"

text \<open>
  \<^verbatim>\<open>get_status\<close>: its arguments are a text and a float, which are immutable, and it
  reads the constant table only.
\<close>

definition get_status_st :: "store \<Rightarrow> string \<Rightarrow> fl \<Rightarrow> string \<times> store" where
  "get_status_st h metric_name v = (get_status metric_name v, h)"

text \<open>
  A call of \<open>f\<close> on the object at \<open>a\<close> is pure and repeatable: it returns, its result
  is a new object, every object that the store had is as it was, and a second call in
  the store that the first call left returns an object equal to the first result, again
  changing nothing.
\<close>

definition pure_call :: "(store \<Rightarrow> nat \<Rightarrow> (nat \<times> store) option) \<Rightarrow> store \<Rightarrow> nat \<Rightarrow> bool" where
  "pure_call f h a \<longleftrightarrow>
     (case f h a of
        None \<Rightarrow> False
      | Some (r, h') \<Rightarrow>
          r = length h \<and> take (length h) h' = h \<and>
          (case f h' a of
             None \<Rightarrow> False
           | Some (r2, h'') \<Rightarrow>
               r2 = length h' \<and> take (length h') h'' = h' \<and> h'' ! r2 = h' ! r))"

text \<open>The object that a call returns.\<close>

definition result_of :: "(nat \<times> store) option \<Rightarrow> obj option" where
  "result_of c = (case c of None \<Rightarrow> None | Some (r, h') \<Rightarrow> Some (h' ! r))"

text \<open>A store with a table of one day and a Metric Set.\<close>

definition sample_store :: store where
  "sample_store = [Frame [zero_day], MetricSet healthy_metrics]"

section \<open>The metrics engine in the range of the machine numbers\<close>

text \<open>
  The exact operations above are those of the program as long as no result leaves the
  range of binary64 and no sum of an integer column leaves the range of int64. Here the
  two ranges are part of the model. A float result whose magnitude reaches
  \<open>2 ^ 1024 - 2 ^ 970\<close>, the least magnitude that rounds to an infinity, is that
  infinity; below it the result is kept exact, rounding and underflow not being
  modelled.
\<close>

definition float_limit :: rat where
  "float_limit = 2 ^ 1024 - 2 ^ 970"

definition in_range :: "rat \<Rightarrow> bool" where
  "in_range r \<longleftrightarrow> - float_limit < r \<and> r < float_limit"

definition to_float :: "rat \<Rightarrow> fl" where
  "to_float r =
     (if float_limit \<le> r then PInf else if r \<le> - float_limit then NInf else Fin r)"

fun fadd64 :: "fl \<Rightarrow> fl \<Rightarrow> fl" where
  "fadd64 NaN _ = NaN"
| "fadd64 _ NaN = NaN"
| "fadd64 (Fin a) (Fin b) = to_float (a + b)"
| "fadd64 PInf NInf = NaN"
| "fadd64 NInf PInf = NaN"
| "fadd64 PInf _ = PInf"
| "fadd64 _ PInf = PInf"
| "fadd64 NInf _ = NInf"
| "fadd64 _ NInf = NInf"

fun fmul64 :: "fl \<Rightarrow> fl \<Rightarrow> fl" where
  "fmul64 (Fin a) (Fin b) = to_float (a * b)"
| "fmul64 x y = fmul x y"

fun fdiv64 :: "fl \<Rightarrow> fl \<Rightarrow> fl" where
  "fdiv64 (Fin a) (Fin b) = (if b \<noteq> 0 then to_float (a / b) else fdiv (Fin a) (Fin b))"
| "fdiv64 x y = fdiv x y"

text \<open>An int64 result is the integer modulo \<open>2 ^ 64\<close>, between \<open>- 2 ^ 63\<close> and \<open>2 ^ 63 - 1\<close>.\<close>

definition wrap64 :: "int \<Rightarrow> int" where
  "wrap64 i = (i + 2 ^ 63) mod 2 ^ 64 - 2 ^ 63"

text \<open>
  The sum of one column of a table, by the type of the column. The values of an int64
  column are integers, and their sum wraps; a float64 column is summed in binary64, here
  from the first row to the last. A value that is not in the range of binary64 is an
  infinity already in the column.
\<close>

datatype dtype = Int64 | Float64

fun series_sum :: "dtype \<Rightarrow> ('r \<Rightarrow> rat) \<Rightarrow> 'r list \<Rightarrow> fl" where
  "series_sum Int64 f df = Fin (of_int (wrap64 (sum_list (map (\<lambda>r. \<lfloor>f r\<rfloor>) df))))"
| "series_sum Float64 f df = foldl fadd64 (Fin 0) (map (\<lambda>r. to_float (f r)) df)"

text \<open>
  The types of the seven numeric columns of a table. In appmanual.py they depend on the
  sheet: \<^verbatim>\<open>pd.to_numeric\<close> gives int64 to a column of integers and float64 to another.
  In app.py the counters are built by \<^verbatim>\<open>int\<close> and the spend by \<^verbatim>\<open>float\<close>.
\<close>

record dtypes =
  dt_impressions :: dtype
  dt_clicks :: dtype
  dt_lp_views :: dtype
  dt_adds_to_cart :: dtype
  dt_checkouts :: dtype
  dt_purchases :: dtype
  dt_spend :: dtype


text \<open>
  When every numeric column is an int64 column, the totals are int64 numbers, and the
  product of the purchases by 500 is an int64 product, which wraps; otherwise the totals
  are binary64 numbers.
\<close>

definition all_int :: "dtypes \<Rightarrow> bool" where
  "all_int dt \<longleftrightarrow>
     dt_impressions dt = Int64 \<and> dt_clicks dt = Int64 \<and> dt_lp_views dt = Int64 \<and>
     dt_adds_to_cart dt = Int64 \<and> dt_checkouts dt = Int64 \<and> dt_purchases dt = Int64 \<and>
     dt_spend dt = Int64"

fun int_times :: "fl \<Rightarrow> int \<Rightarrow> fl" where
  "int_times (Fin x) k = Fin (of_int (wrap64 (\<lfloor>x\<rfloor> * k)))"
| "int_times x k = x"

definition times_500 :: "dtypes \<Rightarrow> fl \<Rightarrow> fl" where
  "times_500 dt x = (if all_int dt then int_times x 500 else fmul64 x (Fin 500))"

definition sum_totals64 :: "dtypes \<Rightarrow> ('a row_scheme) list \<Rightarrow> totals" where
  "sum_totals64 dt df =
     \<lparr> total_impressions = series_sum (dt_impressions dt) impressions df,
       total_clicks = series_sum (dt_clicks dt) clicks df,
       total_lp_views = series_sum (dt_lp_views dt) lp_views df,
       total_adds_to_cart = series_sum (dt_adds_to_cart dt) adds_to_cart df,
       total_checkouts = series_sum (dt_checkouts dt) checkouts df,
       total_purchases = series_sum (dt_purchases dt) purchases df,
       total_spend = series_sum (dt_spend dt) spend df \<rparr>"

definition pct64 :: "fl \<Rightarrow> fl \<Rightarrow> fl" where
  "pct64 a b = (if fless (Fin 0) b then fmul64 (fdiv64 a b) (Fin 100) else Fin 0)"

text \<open>\<^verbatim>\<open>calculate_metrics\<close> of appmanual.py, on a table with columns of the given types.\<close>

definition calculate_metrics_manual64 ::
    "dtypes \<Rightarrow> ('a row_scheme) list \<Rightarrow> totals metric_set" where
  "calculate_metrics_manual64 dt df =
     (let t = sum_totals64 dt df in
      \<lparr> CTR = pct64 (total_clicks t) (total_impressions t),
        LP_View_Rate = pct64 (total_lp_views t) (total_clicks t),
        ATC_Rate = pct64 (total_adds_to_cart t) (total_lp_views t),
        Checkout_Rate = pct64 (total_checkouts t) (total_adds_to_cart t),
        Purchase_Rate = pct64 (total_purchases t) (total_checkouts t),
        Overall_CVR = pct64 (total_purchases t) (total_clicks t),
        CPC = (if fless (Fin 0) (total_clicks t)
               then fdiv64 (total_spend t) (total_clicks t) else Fin 0),
        CPA = (if fless (Fin 0) (total_purchases t)
               then fdiv64 (total_spend t) (total_purchases t) else Fin 0),
        ROAS = (if fless (Fin 0) (total_spend t)
                then fdiv64 (times_500 dt (total_purchases t)) (total_spend t) else Fin 0),
        Frequency = (if fless (Fin 0) (total_clicks t)
                     then fdiv64 (total_impressions t) (total_clicks t) else Fin 0),
        totals = t \<rparr>)"


text \<open>
  The conditions under which nothing overflows. A float64 column is in range when the
  sum of the magnitudes of its values is below the limit: then every partial sum is, in
  any order of summation. A quotient of two totals, taken when the denominator is
  positive, is in range when it is below the limit in magnitude, also once multiplied by
  the factor that follows.
\<close>

definition column_in_range :: "dtype \<Rightarrow> ('r \<Rightarrow> rat) \<Rightarrow> 'r list \<Rightarrow> bool" where
  "column_in_range d f df \<longleftrightarrow>
     (d = Float64 \<longrightarrow> sum_list (map (\<lambda>r. \<bar>f r\<bar>) df) < float_limit)"

definition columns_in_range :: "dtypes \<Rightarrow> ('a row_scheme) list \<Rightarrow> bool" where
  "columns_in_range dt df \<longleftrightarrow>
     column_in_range (dt_impressions dt) impressions df \<and>
     column_in_range (dt_clicks dt) clicks df \<and>
     column_in_range (dt_lp_views dt) lp_views df \<and>
     column_in_range (dt_adds_to_cart dt) adds_to_cart df \<and>
     column_in_range (dt_checkouts dt) checkouts df \<and>
     column_in_range (dt_purchases dt) purchases df \<and>
     column_in_range (dt_spend dt) spend df"

fun ratio_in_range :: "fl \<Rightarrow> fl \<Rightarrow> rat \<Rightarrow> bool" where
  "ratio_in_range (Fin a) (Fin b) k \<longleftrightarrow> (0 < b \<longrightarrow> in_range (a / b) \<and> in_range (a / b * k))"
| "ratio_in_range x y k \<longleftrightarrow> True"

fun product_in_range :: "fl \<Rightarrow> rat \<Rightarrow> bool" where
  "product_in_range (Fin a) k \<longleftrightarrow> in_range (a * k)"
| "product_in_range x k \<longleftrightarrow> True"

definition ratios_in_range :: "dtypes \<Rightarrow> 'a totals_scheme \<Rightarrow> bool" where
  "ratios_in_range dt t \<longleftrightarrow>
     ratio_in_range (total_clicks t) (total_impressions t) 100 \<and>
     ratio_in_range (total_lp_views t) (total_clicks t) 100 \<and>
     ratio_in_range (total_adds_to_cart t) (total_lp_views t) 100 \<and>
     ratio_in_range (total_checkouts t) (total_adds_to_cart t) 100 \<and>
     ratio_in_range (total_purchases t) (total_checkouts t) 100 \<and>
     ratio_in_range (total_purchases t) (total_clicks t) 100 \<and>
     ratio_in_range (total_spend t) (total_clicks t) 1 \<and>
     ratio_in_range (total_spend t) (total_purchases t) 1 \<and>
     ratio_in_range (total_impressions t) (total_clicks t) 1 \<and>
     (all_int dt \<or> product_in_range (total_purchases t) 500) \<and>
     ratio_in_range (times_500 dt (total_purchases t)) (total_spend t) 1"

definition no_overflow_manual :: "dtypes \<Rightarrow> ('a row_scheme) list \<Rightarrow> bool" where
  "no_overflow_manual dt df \<longleftrightarrow>
     columns_in_range dt df \<and> ratios_in_range dt (sum_totals64 dt df)"






definition float_dtypes :: dtypes where
  "float_dtypes =
     \<lparr> dt_impressions = Float64, dt_clicks = Float64, dt_lp_views = Float64,
       dt_adds_to_cart = Float64, dt_checkouts = Float64, dt_purchases = Float64,
       dt_spend = Float64 \<rparr>"


section \<open>Properties of the metrics engine\<close>

lemma to_float_in_range: "in_range r \<Longrightarrow> to_float r = Fin r"
  by (simp add: to_float_def in_range_def)

lemma float_limit_pos: "0 < float_limit"
  by (simp add: float_limit_def)

text \<open>A float64 column whose magnitudes sum below the limit is summed exactly.\<close>

lemma float_sum_exact:
  "\<bar>a\<bar> + sum_list (map (\<lambda>r. \<bar>f r\<bar>) df) < float_limit \<Longrightarrow>
   foldl fadd64 (Fin a) (map (\<lambda>r. to_float (f r)) df) = Fin (a + sum_list (map f df))"
proof (induction df arbitrary: a)
  case Nil
  then show ?case by simp
next
  case (Cons x df)
  have nn: "0 \<le> sum_list (map (\<lambda>r. \<bar>f r\<bar>) df)"
    by (rule sum_list_nonneg) auto
  from Cons.prems have p: "\<bar>a\<bar> + \<bar>f x\<bar> + sum_list (map (\<lambda>r. \<bar>f r\<bar>) df) < float_limit"
    by (simp add: add.assoc)
  from p nn have fx: "in_range (f x)"
    unfolding in_range_def by linarith
  from p nn have s: "in_range (a + f x)"
    unfolding in_range_def by linarith
  from p have "\<bar>a + f x\<bar> + sum_list (map (\<lambda>r. \<bar>f r\<bar>) df) < float_limit"
    by linarith
  then have "foldl fadd64 (Fin (a + f x)) (map (\<lambda>r. to_float (f r)) df) =
      Fin (a + f x + sum_list (map f df))"
    by (rule Cons.IH)
  then show ?case
    by (simp add: to_float_in_range [OF fx] to_float_in_range [OF s] add.assoc)
qed














text \<open>
  On float64 columns where nothing overflows, the engine in the range of binary64 is the
  exact engine.
\<close>

lemma series_sum_exact:
  "column_in_range Float64 f df \<Longrightarrow> series_sum Float64 f df = col_sum f df"
  using float_sum_exact [of 0 f df] by (simp add: column_in_range_def col_sum_def)

lemma sum_totals64_exact:
  "columns_in_range float_dtypes df \<Longrightarrow> sum_totals64 float_dtypes df = sum_totals df"
  by (simp add: columns_in_range_def sum_totals64_def sum_totals_def float_dtypes_def
      series_sum_exact del: series_sum.simps)

lemma pct64_exact:
  "ratio_in_range (Fin a) (Fin b) 100 \<Longrightarrow> pct64 (Fin a) (Fin b) = pct (Fin a) (Fin b)"
  by (simp add: pct64_def pct_def to_float_in_range)

lemma manual64_exact:
  assumes "no_overflow_manual float_dtypes df"
  shows "calculate_metrics_manual64 float_dtypes df = calculate_metrics_manual df"
proof -
  from assms have t: "sum_totals64 float_dtypes df = sum_totals df"
    by (simp add: no_overflow_manual_def sum_totals64_exact)
  have n: "\<not> all_int float_dtypes"
    by (simp add: all_int_def float_dtypes_def)
  from assms have "ratios_in_range float_dtypes (sum_totals df)"
    by (simp add: no_overflow_manual_def t)
  then show ?thesis
    unfolding calculate_metrics_manual64_def calculate_metrics_manual_def t Let_def
    using n
    by (auto simp: ratios_in_range_def sum_totals_def col_sum_def pct64_exact times_500_def
        to_float_in_range)
qed







section \<open>Properties of the daily metrics\<close>

text \<open>What the daily table does guarantee: \<^verbatim>\<open>fillna(0)\<close> leaves no NaN.\<close>

lemma fillna0_not_NaN: "fillna0 x \<noteq> NaN"
  by (cases x) simp_all

lemma replace_inf0_fillna0_not_NaN: "replace_inf0 (fillna0 x) \<noteq> NaN"
  by (cases x) simp_all

lemma daily_CPA_not_PInf: "daily_CPA (daily_of r) \<noteq> PInf"
proof -
  have "replace_inf0 y \<noteq> PInf" for y
    by (cases y) simp_all
  then show ?thesis
    by (simp add: daily_of_def)
qed

text \<open>
  C2. On a day with purchases and no checkout, the denominator of the day's
  \<^verbatim>\<open>Purchase_Rate\<close> is 0 and \<^verbatim>\<open>calculate_daily_metrics\<close> returns plus infinity for it, in
  appmanual.py and in before_metrics_addition.py alike: \<^verbatim>\<open>fillna(0)\<close> replaces NaN only,
  and only the \<^verbatim>\<open>CPA\<close>, \<^verbatim>\<open>ROAS\<close> and \<^verbatim>\<open>ACoS\<close> columns go through
  \<^verbatim>\<open>replace([float('inf')], 0)\<close>.
\<close>

theorem daily_purchase_rate_infinite:
  "checkouts direct_purchase_day \<le> 0 \<and>
   map (\<lambda>d. daily_Purchase_Rate (snd d)) (calculate_daily_metrics_manual [direct_purchase_day])
     = [PInf] \<and>
   checkouts direct_purchase_day_rev \<le> 0 \<and>
   map (\<lambda>d. daily_Purchase_Rate (snd d)) (calculate_daily_metrics_rev [direct_purchase_day_rev])
     = [PInf]"
  by (simp add: calculate_daily_metrics_manual_def calculate_daily_metrics_rev_def
      daily_of_def daily_rev_of_def direct_purchase_day_def direct_purchase_day_rev_def)

section \<open>Properties of the Frequency metric\<close>




section \<open>Properties of the benchmark classifier\<close>

lemma BENCHMARKS_min_below_ideal:
  "map_of BENCHMARKS name = Some b \<Longrightarrow> min_b b < ideal b"
  by (auto simp: BENCHMARKS_def split: if_splits)

lemma status_strings_distinct:
  "''excellent'' \<noteq> ''good''" "''excellent'' \<noteq> ''critical''" "''good'' \<noteq> ''critical''"
  by simp_all

lemma emojis_distinct:
  "emoji_check \<noteq> emoji_warning" "emoji_check \<noteq> emoji_siren" "emoji_warning \<noteq> emoji_siren"
  "emoji_warning \<noteq> emoji_check" "emoji_siren \<noteq> emoji_check" "emoji_siren \<noteq> emoji_warning"
  by (simp_all add: emoji_check_def emoji_warning_def emoji_siren_def)

lemma get_status_bands:
  assumes "map_of BENCHMARKS name = Some b"
  shows "get_status name (Fin v) = ''excellent'' \<longleftrightarrow> ideal b \<le> v"
    and "get_status name (Fin v) = ''good'' \<longleftrightarrow> min_b b \<le> v \<and> v < ideal b"
    and "get_status name (Fin v) = ''critical'' \<longleftrightarrow> v < min_b b"
  using assms BENCHMARKS_min_below_ideal [OF assms]
  by (auto simp: get_status_def)

lemma get_status_emoji_api_bands:
  assumes "map_of BENCHMARKS name = Some b"
  shows "get_status_emoji_api name (Fin v) = emoji_check \<longleftrightarrow> ideal b \<le> v"
    and "get_status_emoji_api name (Fin v) = emoji_warning \<longleftrightarrow> min_b b \<le> v \<and> v < ideal b"
    and "get_status_emoji_api name (Fin v) = emoji_siren \<longleftrightarrow> v < min_b b"
  using assms BENCHMARKS_min_below_ideal [OF assms]
  by (auto simp: get_status_emoji_api_def emojis_distinct)

lemma get_status_edges:
  assumes "map_of BENCHMARKS name = Some b"
  shows "get_status name (Fin (ideal b)) = ''excellent''"
    and "get_status name (Fin (min_b b)) = ''good''"
    and "get_status name (Fin (min_b b - 1)) = ''critical''"
  using assms BENCHMARKS_min_below_ideal [OF assms]
  by (auto simp: get_status_def)

lemma get_status_emoji_api_edges:
  assumes "map_of BENCHMARKS name = Some b"
  shows "get_status_emoji_api name (Fin (ideal b)) = emoji_check"
    and "get_status_emoji_api name (Fin (min_b b)) = emoji_warning"
    and "get_status_emoji_api name (Fin (min_b b - 1)) = emoji_siren"
  using assms BENCHMARKS_min_below_ideal [OF assms]
  by (auto simp: get_status_emoji_api_def)

text \<open>
  C3. For a metric name of the benchmark table and a number \<open>v\<close>, \<^verbatim>\<open>get_status\<close>
  (appmanual.py) answers excellent exactly when \<open>v\<close> is at least the ideal bound, good
  exactly when \<open>v\<close> is at least the minimum and below the ideal, critical exactly when
  \<open>v\<close> is below the minimum; so \<open>v = ideal\<close> is excellent, \<open>v = min\<close> is good and
  \<open>v = min - 1\<close> is critical. \<^verbatim>\<open>get_status_emoji\<close> (app.py) answers the check mark, the
  warning sign and the siren in the same bands. For a name that is not in the table the
  answers are neutral and the white circle, at every float, NaN and the infinities
  included.
\<close>

theorem classifier_bands:
  "(map_of BENCHMARKS name = Some b \<longrightarrow>
      (get_status name (Fin v) = ''excellent'' \<longleftrightarrow> ideal b \<le> v) \<and>
      (get_status name (Fin v) = ''good'' \<longleftrightarrow> min_b b \<le> v \<and> v < ideal b) \<and>
      (get_status name (Fin v) = ''critical'' \<longleftrightarrow> v < min_b b) \<and>
      get_status name (Fin (ideal b)) = ''excellent'' \<and>
      get_status name (Fin (min_b b)) = ''good'' \<and>
      get_status name (Fin (min_b b - 1)) = ''critical'' \<and>
      (get_status_emoji_api name (Fin v) = emoji_check \<longleftrightarrow> ideal b \<le> v) \<and>
      (get_status_emoji_api name (Fin v) = emoji_warning \<longleftrightarrow> min_b b \<le> v \<and> v < ideal b) \<and>
      (get_status_emoji_api name (Fin v) = emoji_siren \<longleftrightarrow> v < min_b b) \<and>
      get_status_emoji_api name (Fin (ideal b)) = emoji_check \<and>
      get_status_emoji_api name (Fin (min_b b)) = emoji_warning \<and>
      get_status_emoji_api name (Fin (min_b b - 1)) = emoji_siren) \<and>
   (map_of BENCHMARKS name = None \<longrightarrow>
      get_status name x = ''neutral'' \<and> get_status_emoji_api name x = emoji_white)"
proof (intro conjI impI)
  assume "map_of BENCHMARKS name = None"
  then show "get_status name x = ''neutral''"
    by (simp add: get_status_def)
next
  assume "map_of BENCHMARKS name = None"
  then show "get_status_emoji_api name x = emoji_white"
    by (simp add: get_status_emoji_api_def)
qed (simp_all only: get_status_bands get_status_emoji_api_bands get_status_edges
    get_status_emoji_api_edges)

text \<open>
  The checkout rate, with the bounds 60 and 75, and a name that the table does not have.
\<close>

theorem classifier_bands_witness:
  "map_of BENCHMARKS ''Checkout_Rate'' =
     Some \<lparr> min_b = 60, ideal = 75, max_b = 85, unit_b = ''%'' \<rparr> \<and>
   get_status ''Checkout_Rate'' (Fin 75) = ''excellent'' \<and>
   get_status ''Checkout_Rate'' (Fin 60) = ''good'' \<and>
   get_status ''Checkout_Rate'' (Fin 59) = ''critical'' \<and>
   get_status_emoji_api ''Checkout_Rate'' (Fin 70) = emoji_warning \<and>
   map_of BENCHMARKS ''ACoS'' = None \<and>
   get_status ''ACoS'' NaN = ''neutral'' \<and>
   get_status_emoji_api ''ACoS'' NaN = emoji_white"
proof -
  have k: "map_of BENCHMARKS ''Checkout_Rate'' =
      Some \<lparr> min_b = 60, ideal = 75, max_b = 85, unit_b = ''%'' \<rparr>"
    by (simp add: BENCHMARKS_def)
  have n: "map_of BENCHMARKS ''ACoS'' = None"
    by (simp add: BENCHMARKS_def)
  from k n
    classifier_bands [of "''Checkout_Rate''"
      "\<lparr> min_b = 60, ideal = 75, max_b = 85, unit_b = ''%'' \<rparr>" 70 NaN]
    classifier_bands [of "''ACoS''" undefined 0 NaN]
  show ?thesis
    by simp
qed

lemma ACoS_entry:
  "map_of BENCHMARKS_rev ''ACoS'' =
     Some \<lparr> min_b = 40, ideal = 25, max_b = 15, unit_b = ''%'' \<rparr>"
  by (simp add: BENCHMARKS_rev_def)

lemma ROAS_entry:
  "map_of BENCHMARKS_rev ''ROAS'' =
     Some \<lparr> min_b = 2, ideal = 4, max_b = 6, unit_b = ''x'' \<rparr>"
  by (simp add: BENCHMARKS_rev_def)

lemma ACoS_bands:
  "get_status_emoji_rev ''ACoS'' (Fin v) = emoji_check \<longleftrightarrow> v \<le> 15"
  "get_status_emoji_rev ''ACoS'' (Fin v) = emoji_warning \<longleftrightarrow> 15 < v \<and> v \<le> 25"
  "get_status_emoji_rev ''ACoS'' (Fin v) = emoji_siren \<longleftrightarrow> 25 < v"
  by (auto simp: get_status_emoji_rev_def ACoS_entry emojis_distinct)

lemma scenario_metrics:
  assumes "col_sum revenue df = Fin 6000" and "col_sum spend df = Fin 1500"
  shows "ACoS (calculate_metrics_rev df) = Fin 25" and "ROAS (calculate_metrics_rev df) = Fin 4"
  using assms
  by (simp_all add: calculate_metrics_rev_def sum_totals_rev_def Let_def)

text \<open>
  C4. In before_metrics_addition.py, \<^verbatim>\<open>get_status_emoji\<close> on ACoS answers the check mark
  (excellent) exactly when the value is at most 15, the warning sign (good) exactly when
  it is above 15 and at most 25, and the siren (critical) exactly when it is above 25. A
  table with a revenue total of 6000 and a spend total of 1500 has ACoS 25, which is
  good, and ROAS 4, which is excellent.
\<close>

theorem acos_classifier_bands:
  "(get_status_emoji_rev ''ACoS'' (Fin v) = emoji_check \<longleftrightarrow> v \<le> 15) \<and>
   (get_status_emoji_rev ''ACoS'' (Fin v) = emoji_warning \<longleftrightarrow> 15 < v \<and> v \<le> 25) \<and>
   (get_status_emoji_rev ''ACoS'' (Fin v) = emoji_siren \<longleftrightarrow> 25 < v) \<and>
   (col_sum revenue df = Fin 6000 \<and> col_sum spend df = Fin 1500 \<longrightarrow>
      ACoS (calculate_metrics_rev df) = Fin 25 \<and>
      get_status_emoji_rev ''ACoS'' (ACoS (calculate_metrics_rev df)) = emoji_warning \<and>
      ROAS (calculate_metrics_rev df) = Fin 4 \<and>
      get_status_emoji_rev ''ROAS'' (ROAS (calculate_metrics_rev df)) = emoji_check)"
proof (intro conjI impI)
  assume a: "col_sum revenue df = Fin 6000 \<and> col_sum spend df = Fin 1500"
  then show "ACoS (calculate_metrics_rev df) = Fin 25"
    by (simp add: scenario_metrics)
  from a show "ROAS (calculate_metrics_rev df) = Fin 4"
    by (simp add: scenario_metrics)
  from a show "get_status_emoji_rev ''ACoS'' (ACoS (calculate_metrics_rev df)) = emoji_warning"
    by (simp add: scenario_metrics ACoS_bands)
  from a show "get_status_emoji_rev ''ROAS'' (ROAS (calculate_metrics_rev df)) = emoji_check"
    by (simp add: scenario_metrics get_status_emoji_rev_def ROAS_entry)
qed (simp_all only: ACoS_bands)

theorem acos_classifier_bands_witness:
  "col_sum revenue roas_scenario = Fin 6000 \<and> col_sum spend roas_scenario = Fin 1500 \<and>
   ACoS (calculate_metrics_rev roas_scenario) = Fin 25 \<and>
   get_status_emoji_rev ''ACoS'' (ACoS (calculate_metrics_rev roas_scenario)) = emoji_warning \<and>
   ROAS (calculate_metrics_rev roas_scenario) = Fin 4 \<and>
   get_status_emoji_rev ''ROAS'' (ROAS (calculate_metrics_rev roas_scenario)) = emoji_check"
proof -
  have s: "col_sum revenue roas_scenario = Fin 6000 \<and> col_sum spend roas_scenario = Fin 1500"
    by (simp add: col_sum_def roas_scenario_def)
  from s acos_classifier_bands [of 0 roas_scenario] show ?thesis
    by blast
qed

section \<open>Properties of the recommendation engine\<close>

lemma bench_manual_values:
  "min_b (bench BENCHMARKS ''Checkout_Rate'') = 60"
  "min_b (bench BENCHMARKS ''LP_View_Rate'') = 80"
  "min_b (bench BENCHMARKS ''Purchase_Rate'') = 50"
  "min_b (bench BENCHMARKS ''CTR'') = 9 / 10"
  by (simp_all add: bench_def BENCHMARKS_def)

lemma bench_rev_values:
  "min_b (bench BENCHMARKS_rev ''Checkout_Rate'') = 60"
  "min_b (bench BENCHMARKS_rev ''LP_View_Rate'') = 80"
  "min_b (bench BENCHMARKS_rev ''CTR'') = 9 / 10"
  "min_b (bench BENCHMARKS_rev ''ROAS'') = 2"
  "ideal (bench BENCHMARKS_rev ''ACoS'') = 25"
  by (simp_all add: bench_def BENCHMARKS_rev_def)

lemma issue_priorities:
  "priority (checkout_issue m) = CRITICAL"
  "priority (lp_view_issue m) = HIGH"
  "priority (purchase_issue m) = MEDIUM"
  "priority (ctr_issue m) = MEDIUM"
  "priority (checkout_issue_rev r) = CRITICAL"
  "priority (lp_view_issue_rev r) = HIGH"
  "priority (ctr_issue_rev r) = MEDIUM"
  "priority (roas_issue_rev r) = CRITICAL"
  "priority (acos_issue_rev r) = HIGH"
  by (simp_all add: checkout_issue_def lp_view_issue_def purchase_issue_def ctr_issue_def
      checkout_issue_rev_def lp_view_issue_rev_def ctr_issue_rev_def roas_issue_rev_def
      acos_issue_rev_def)

text \<open>The issues in the order in which the rules are declared.\<close>

lemma issues_manual_declared:
  "issues_manual m =
     one_if (checkout_low m) (checkout_issue m) @ one_if (lp_view_low m) (lp_view_issue m) @
     one_if (purchase_low m) (purchase_issue m) @ one_if (ctr_low m) (ctr_issue m)"
  by (simp add: issues_manual_def Let_def one_if_def bench_manual_values checkout_low_def
      lp_view_low_def purchase_low_def ctr_low_def)

lemma issues_rev_declared:
  "issues_rev m =
     one_if (checkout_low m) (checkout_issue_rev m) @ one_if (lp_view_low m) (lp_view_issue_rev m) @
     one_if (ctr_low m) (ctr_issue_rev m) @ one_if (roas_low m) (roas_issue_rev m) @
     one_if (acos_high m) (acos_issue_rev m)"
  by (simp add: issues_rev_def Let_def one_if_def bench_rev_values checkout_low_def
      lp_view_low_def ctr_low_def roas_low_def acos_high_def)

text \<open>The sorted list, rule by rule.\<close>

lemma get_recommendations_manual_list:
  "get_recommendations_manual m =
     one_if (checkout_low m) (checkout_issue m) @ one_if (lp_view_low m) (lp_view_issue m) @
     one_if (purchase_low m) (purchase_issue m) @ one_if (ctr_low m) (ctr_issue m)"
proof -
  have "sorted (map (\<lambda>x. priority_order (priority x)) (issues_manual m))"
    by (simp add: issues_manual_declared one_if_def issue_priorities)
  then show ?thesis
    unfolding get_recommendations_manual_def
    by (simp add: sort_key_id_if_sorted issues_manual_declared)
qed

lemma get_recommendations_rev_list:
  "get_recommendations_rev m =
     one_if (checkout_low m) (checkout_issue_rev m) @ one_if (roas_low m) (roas_issue_rev m) @
     one_if (lp_view_low m) (lp_view_issue_rev m) @ one_if (acos_high m) (acos_issue_rev m) @
     one_if (ctr_low m) (ctr_issue_rev m)"
  unfolding get_recommendations_rev_def issues_rev_declared
  by (cases "checkout_low m"; cases "lp_view_low m"; cases "ctr_low m"; cases "roas_low m";
      cases "acos_high m") (simp_all add: one_if_def issue_priorities)

lemma sorted_get_recommendations_manual:
  "sorted (map (\<lambda>x. priority_order (priority x)) (get_recommendations_manual m))"
  unfolding get_recommendations_manual_def by simp

lemma sorted_get_recommendations_rev:
  "sorted (map (\<lambda>x. priority_order (priority x)) (get_recommendations_rev m))"
  unfolding get_recommendations_rev_def by simp

lemma stable_get_recommendations_manual:
  "filter (\<lambda>x. priority_order (priority x) = k) (get_recommendations_manual m) =
   filter (\<lambda>x. priority_order (priority x) = k) (issues_manual m)"
  unfolding get_recommendations_manual_def by (rule sort_key_stable)

lemma stable_get_recommendations_rev:
  "filter (\<lambda>x. priority_order (priority x) = k) (get_recommendations_rev m) =
   filter (\<lambda>x. priority_order (priority x) = k) (issues_rev m)"
  unfolding get_recommendations_rev_def by (rule sort_key_stable)

text \<open>
  C5. \<^verbatim>\<open>get_recommendations\<close> returns its issues sorted by the rank of their priority
  (CRITICAL 0, HIGH 1, MEDIUM 2); issues of one priority keep the order in which the
  rules are declared; each rule whose condition holds contributes exactly one issue, the
  one with its fixed list of actions, and no other issue is returned. In appmanual.py the
  returned order is Checkout_Rate, LP_View_Rate, Purchase_Rate, CTR; in
  before_metrics_addition.py, whose declaration order is Checkout_Rate, LP_View_Rate,
  CTR, ROAS, ACoS, it is Checkout_Rate, ROAS, LP_View_Rate, ACoS, CTR. The result is a
  function of the Metric Set, and when no condition holds it is the empty list.
\<close>

theorem get_recommendations_sorted_stable:
  "sorted (map (\<lambda>x. priority_order (priority x)) (get_recommendations_manual m)) \<and>
   (\<forall>k. filter (\<lambda>x. priority_order (priority x) = k) (get_recommendations_manual m) =
        filter (\<lambda>x. priority_order (priority x) = k) (issues_manual m)) \<and>
   issues_manual m =
     one_if (checkout_low m) (checkout_issue m) @ one_if (lp_view_low m) (lp_view_issue m) @
     one_if (purchase_low m) (purchase_issue m) @ one_if (ctr_low m) (ctr_issue m) \<and>
   get_recommendations_manual m =
     one_if (checkout_low m) (checkout_issue m) @ one_if (lp_view_low m) (lp_view_issue m) @
     one_if (purchase_low m) (purchase_issue m) @ one_if (ctr_low m) (ctr_issue m) \<and>
   (\<not> checkout_low m \<and> \<not> lp_view_low m \<and> \<not> purchase_low m \<and> \<not> ctr_low m \<longrightarrow>
      get_recommendations_manual m = []) \<and>
   sorted (map (\<lambda>x. priority_order (priority x)) (get_recommendations_rev r)) \<and>
   (\<forall>k. filter (\<lambda>x. priority_order (priority x) = k) (get_recommendations_rev r) =
        filter (\<lambda>x. priority_order (priority x) = k) (issues_rev r)) \<and>
   issues_rev r =
     one_if (checkout_low r) (checkout_issue_rev r) @ one_if (lp_view_low r) (lp_view_issue_rev r) @
     one_if (ctr_low r) (ctr_issue_rev r) @ one_if (roas_low r) (roas_issue_rev r) @
     one_if (acos_high r) (acos_issue_rev r) \<and>
   get_recommendations_rev r =
     one_if (checkout_low r) (checkout_issue_rev r) @ one_if (roas_low r) (roas_issue_rev r) @
     one_if (lp_view_low r) (lp_view_issue_rev r) @ one_if (acos_high r) (acos_issue_rev r) @
     one_if (ctr_low r) (ctr_issue_rev r) \<and>
   (\<not> checkout_low r \<and> \<not> lp_view_low r \<and> \<not> ctr_low r \<and> \<not> roas_low r \<and> \<not> acos_high r \<longrightarrow>
      get_recommendations_rev r = [])"
proof (intro conjI allI impI)
  show "sorted (map (\<lambda>x. priority_order (priority x)) (get_recommendations_manual m))"
    by (rule sorted_get_recommendations_manual)
  show "sorted (map (\<lambda>x. priority_order (priority x)) (get_recommendations_rev r))"
    by (rule sorted_get_recommendations_rev)
  show "filter (\<lambda>x. priority_order (priority x) = k) (get_recommendations_manual m) =
        filter (\<lambda>x. priority_order (priority x) = k) (issues_manual m)" for k
    by (rule stable_get_recommendations_manual)
  show "filter (\<lambda>x. priority_order (priority x) = k) (get_recommendations_rev r) =
        filter (\<lambda>x. priority_order (priority x) = k) (issues_rev r)" for k
    by (rule stable_get_recommendations_rev)
  show "issues_manual m =
     one_if (checkout_low m) (checkout_issue m) @ one_if (lp_view_low m) (lp_view_issue m) @
     one_if (purchase_low m) (purchase_issue m) @ one_if (ctr_low m) (ctr_issue m)"
    by (rule issues_manual_declared)
  show "get_recommendations_manual m =
     one_if (checkout_low m) (checkout_issue m) @ one_if (lp_view_low m) (lp_view_issue m) @
     one_if (purchase_low m) (purchase_issue m) @ one_if (ctr_low m) (ctr_issue m)"
    by (rule get_recommendations_manual_list)
  show "issues_rev r =
     one_if (checkout_low r) (checkout_issue_rev r) @ one_if (lp_view_low r) (lp_view_issue_rev r) @
     one_if (ctr_low r) (ctr_issue_rev r) @ one_if (roas_low r) (roas_issue_rev r) @
     one_if (acos_high r) (acos_issue_rev r)"
    by (rule issues_rev_declared)
  show "get_recommendations_rev r =
     one_if (checkout_low r) (checkout_issue_rev r) @ one_if (roas_low r) (roas_issue_rev r) @
     one_if (lp_view_low r) (lp_view_issue_rev r) @ one_if (acos_high r) (acos_issue_rev r) @
     one_if (ctr_low r) (ctr_issue_rev r)"
    by (rule get_recommendations_rev_list)
next
  assume "\<not> checkout_low m \<and> \<not> lp_view_low m \<and> \<not> purchase_low m \<and> \<not> ctr_low m"
  then show "get_recommendations_manual m = []"
    by (simp add: get_recommendations_manual_list one_if_def)
next
  assume "\<not> checkout_low r \<and> \<not> lp_view_low r \<and> \<not> ctr_low r \<and> \<not> roas_low r \<and> \<not> acos_high r"
  then show "get_recommendations_rev r = []"
    by (simp add: get_recommendations_rev_list one_if_def)
qed

text \<open>Two Metric Sets on which no rule fires.\<close>

theorem get_recommendations_sorted_stable_witness:
  "\<not> checkout_low healthy_metrics \<and> \<not> lp_view_low healthy_metrics \<and>
   \<not> purchase_low healthy_metrics \<and> \<not> ctr_low healthy_metrics \<and>
   get_recommendations_manual healthy_metrics = [] \<and>
   \<not> checkout_low healthy_metrics_rev \<and> \<not> lp_view_low healthy_metrics_rev \<and>
   \<not> ctr_low healthy_metrics_rev \<and> \<not> roas_low healthy_metrics_rev \<and>
   \<not> acos_high healthy_metrics_rev \<and>
   get_recommendations_rev healthy_metrics_rev = []"
proof -
  have a: "\<not> checkout_low healthy_metrics \<and> \<not> lp_view_low healthy_metrics \<and>
      \<not> purchase_low healthy_metrics \<and> \<not> ctr_low healthy_metrics"
    by (simp add: healthy_metrics_def checkout_low_def lp_view_low_def purchase_low_def
        ctr_low_def)
  have b: "\<not> checkout_low healthy_metrics_rev \<and> \<not> lp_view_low healthy_metrics_rev \<and>
      \<not> ctr_low healthy_metrics_rev \<and> \<not> roas_low healthy_metrics_rev \<and>
      \<not> acos_high healthy_metrics_rev"
    by (simp add: healthy_metrics_rev_def checkout_low_def lp_view_low_def ctr_low_def
        roas_low_def acos_high_def)
  from a b get_recommendations_sorted_stable [of healthy_metrics healthy_metrics_rev]
  show ?thesis
    by blast
qed

section \<open>Properties of the rows built from API insight records\<close>

lemma last_value_snoc:
  "last_value P (as @ [a]) =
     (if P (action_type a) then of_int (action_value a) else last_value P as)"
  by (simp add: last_value_def Let_def)

lemma apply_action_tests:
  "apply_action row a =
     (if lp_test (action_type a) then row\<lparr>lp_views := of_int (action_value a)\<rparr>
      else if atc_test (action_type a) then row\<lparr>adds_to_cart := of_int (action_value a)\<rparr>
      else if checkout_test (action_type a) then row\<lparr>checkouts := of_int (action_value a)\<rparr>
      else if purchase_test (action_type a) then row\<lparr>purchases := of_int (action_value a)\<rparr>
      else row)"
  unfolding apply_action_def Let_def lp_test_def atc_test_def checkout_test_def
    purchase_test_def
  by (rule refl)

lemma last_value_Nil: "last_value P [] = 0"
  by (simp add: last_value_def)

text \<open>
  The loop, from any starting row: a field keeps its starting value until an action of
  its branch is met, and then holds the value of the last such action.
\<close>

lemma extract_actions_fields:
  "lp_views (extract_actions row as) =
     (if \<exists>a \<in> set as. lp_test (action_type a)
      then last_value lp_test as else lp_views row)"
  "adds_to_cart (extract_actions row as) =
     (if \<exists>a \<in> set as. \<not> lp_test (action_type a) \<and> atc_test (action_type a)
      then last_value (\<lambda>t. \<not> lp_test t \<and> atc_test t) as else adds_to_cart row)"
  "checkouts (extract_actions row as) =
     (if \<exists>a \<in> set as. \<not> lp_test (action_type a) \<and> \<not> atc_test (action_type a)
           \<and> checkout_test (action_type a)
      then last_value (\<lambda>t. \<not> lp_test t \<and> \<not> atc_test t \<and> checkout_test t) as
      else checkouts row)"
  "purchases (extract_actions row as) =
     (if \<exists>a \<in> set as. \<not> lp_test (action_type a) \<and> \<not> atc_test (action_type a)
           \<and> \<not> checkout_test (action_type a) \<and> purchase_test (action_type a)
      then last_value (\<lambda>t. \<not> lp_test t \<and> \<not> atc_test t \<and> \<not> checkout_test t \<and> purchase_test t) as
      else purchases row)"
proof (induction as rule: rev_induct)
  case Nil
  {
    case 1 show ?case by (simp add: extract_actions_def)
  next
    case 2 show ?case by (simp add: extract_actions_def)
  next
    case 3 show ?case by (simp add: extract_actions_def)
  next
    case 4 show ?case by (simp add: extract_actions_def)
  }
next
  case (snoc a as)
  have step: "extract_actions row (as @ [a]) = apply_action (extract_actions row as) a"
    by (simp add: extract_actions_def)
  {
    case 1
    show ?case
      unfolding step last_value_snoc using snoc.IH(1)
      by (auto simp: apply_action_tests)
  next
    case 2
    show ?case
      unfolding step last_value_snoc using snoc.IH(2)
      by (auto simp: apply_action_tests)
  next
    case 3
    show ?case
      unfolding step last_value_snoc using snoc.IH(3)
      by (auto simp: apply_action_tests)
  next
    case 4
    show ?case
      unfolding step last_value_snoc using snoc.IH(4)
      by (auto simp: apply_action_tests)
  }
qed

lemma last_value_none:
  "\<not> (\<exists>a \<in> set as. P (action_type a)) \<Longrightarrow> last_value P as = 0"
  by (simp add: last_value_def Let_def filter_empty_conv)

text \<open>
  The exact comparisons of the chain add nothing: each pixel-prefixed name contains the
  piece that its branch looks for.
\<close>

lemma pixel_names_contain:
  "str_in ''add_to_cart'' ''offsite_conversion.fb_pixel_add_to_cart''"
  "str_in ''initiate_checkout'' ''offsite_conversion.fb_pixel_initiate_checkout''"
  "str_in ''purchase'' ''offsite_conversion.fb_pixel_purchase''"
  by code_simp+

lemma tests_are_substring_tests:
  "lp_test = str_in ''landing_page_view''"
  "atc_test = str_in ''add_to_cart''"
  "checkout_test = str_in ''initiate_checkout''"
  "purchase_test = str_in ''purchase''"
  using pixel_names_contain
  by (auto simp: lp_test_def atc_test_def checkout_test_def purchase_test_def fun_eq_iff)

lemma extract_actions_from_zero:
  assumes "lp_views row = 0" and "adds_to_cart row = 0" and "checkouts row = 0"
    and "purchases row = 0"
  shows "lp_views (extract_actions row as) = last_value lp_test as"
    and "adds_to_cart (extract_actions row as) =
      last_value (\<lambda>t. \<not> lp_test t \<and> atc_test t) as"
    and "checkouts (extract_actions row as) =
      last_value (\<lambda>t. \<not> lp_test t \<and> \<not> atc_test t \<and> checkout_test t) as"
    and "purchases (extract_actions row as) =
      last_value (\<lambda>t. \<not> lp_test t \<and> \<not> atc_test t \<and> \<not> checkout_test t \<and> purchase_test t) as"
  using assms
  by (auto simp: extract_actions_fields last_value_none)

lemma insight_row_fields:
  "lp_views (insight_row ins) = last_value lp_test (ins_actions ins)"
  "adds_to_cart (insight_row ins) =
     last_value (\<lambda>t. \<not> lp_test t \<and> atc_test t) (ins_actions ins)"
  "checkouts (insight_row ins) =
     last_value (\<lambda>t. \<not> lp_test t \<and> \<not> atc_test t \<and> checkout_test t) (ins_actions ins)"
  "purchases (insight_row ins) =
     last_value (\<lambda>t. \<not> lp_test t \<and> \<not> atc_test t \<and> \<not> checkout_test t \<and> purchase_test t)
       (ins_actions ins)"
  unfolding insight_row_def
  by (simp_all add: extract_actions_from_zero)

lemma insight_row_rev_fields:
  "lp_views (insight_row_rev ins) = last_value lp_test (ins_actions ins)"
  "adds_to_cart (insight_row_rev ins) =
     last_value (\<lambda>t. \<not> lp_test t \<and> atc_test t) (ins_actions ins)"
  "checkouts (insight_row_rev ins) =
     last_value (\<lambda>t. \<not> lp_test t \<and> \<not> atc_test t \<and> checkout_test t) (ins_actions ins)"
  "purchases (insight_row_rev ins) =
     last_value (\<lambda>t. \<not> lp_test t \<and> \<not> atc_test t \<and> \<not> checkout_test t \<and> purchase_test t)
       (ins_actions ins)"
  unfolding insight_row_rev_def Let_def
  by (simp_all add: extract_actions_from_zero split: option.splits)

lemma apply_action_purchase:
  assumes "str_in ''purchase'' t" and "\<not> str_in ''landing_page_view'' t"
    and "\<not> str_in ''add_to_cart'' t" and "\<not> str_in ''initiate_checkout'' t"
  shows "purchases (apply_action row \<lparr> action_type = t, action_value = v \<rparr>) = of_int v"
  using assms
  by (simp add: apply_action_tests tests_are_substring_tests)

text \<open>
  C10, as stated, fails on an action whose type contains \<^verbatim>\<open>purchase\<close> and the piece of
  an earlier branch: on the one action \<^verbatim>\<open>add_to_cart_purchase\<close> with value 5, the last
  entry with \<^verbatim>\<open>purchase\<close> in its type has value 5, and the row has 0 purchases and 5
  adds to cart.
\<close>

theorem purchase_substring_not_purchases:
  "ins_actions mixed_insight = [\<lparr> action_type = ''add_to_cart_purchase'', action_value = 5 \<rparr>] \<and>
   str_in ''purchase'' ''add_to_cart_purchase'' \<and>
   last_value (str_in ''purchase'') (ins_actions mixed_insight) = 5 \<and>
   purchases (insight_row mixed_insight) = 0 \<and>
   adds_to_cart (insight_row mixed_insight) = 5"
proof -
  have p: "str_in ''purchase'' ''add_to_cart_purchase''"
    by code_simp
  have a: "str_in ''add_to_cart'' ''add_to_cart_purchase''"
    by code_simp
  have l: "\<not> str_in ''landing_page_view'' ''add_to_cart_purchase''"
    by code_simp
  from p a l show ?thesis
    by (simp add: mixed_insight_def insight_row_fields tests_are_substring_tests
        last_value_def)
qed

text \<open>
  C10, amended. In the row built from an insight record by \<^verbatim>\<open>fetch_campaign_data\<close>
  (app.py) and by \<^verbatim>\<open>fetch_data\<close> (before_metrics_addition.py), each funnel field is the
  value of the last action whose type passes the test of the field's branch and of no
  earlier branch of the chain landing page view, add to cart, initiate checkout,
  purchase, and is 0 when there is no such action: a later action overwrites an earlier
  one and values are never added. An action whose type contains \<^verbatim>\<open>purchase\<close> and none
  of \<^verbatim>\<open>landing_page_view\<close>, \<^verbatim>\<open>add_to_cart\<close>, \<^verbatim>\<open>initiate_checkout\<close> sets the purchases
  field.
\<close>

theorem funnel_fields_last_match:
  "lp_views (insight_row ins) = last_value (str_in ''landing_page_view'') (ins_actions ins) \<and>
   adds_to_cart (insight_row ins) =
     last_value (\<lambda>t. \<not> str_in ''landing_page_view'' t \<and> str_in ''add_to_cart'' t)
       (ins_actions ins) \<and>
   checkouts (insight_row ins) =
     last_value (\<lambda>t. \<not> str_in ''landing_page_view'' t \<and> \<not> str_in ''add_to_cart'' t
                   \<and> str_in ''initiate_checkout'' t)
       (ins_actions ins) \<and>
   purchases (insight_row ins) =
     last_value (\<lambda>t. \<not> str_in ''landing_page_view'' t \<and> \<not> str_in ''add_to_cart'' t
                   \<and> \<not> str_in ''initiate_checkout'' t \<and> str_in ''purchase'' t)
       (ins_actions ins) \<and>
   lp_views (insight_row_rev ins') =
     last_value (str_in ''landing_page_view'') (ins_actions ins') \<and>
   adds_to_cart (insight_row_rev ins') =
     last_value (\<lambda>t. \<not> str_in ''landing_page_view'' t \<and> str_in ''add_to_cart'' t)
       (ins_actions ins') \<and>
   checkouts (insight_row_rev ins') =
     last_value (\<lambda>t. \<not> str_in ''landing_page_view'' t \<and> \<not> str_in ''add_to_cart'' t
                   \<and> str_in ''initiate_checkout'' t)
       (ins_actions ins') \<and>
   purchases (insight_row_rev ins') =
     last_value (\<lambda>t. \<not> str_in ''landing_page_view'' t \<and> \<not> str_in ''add_to_cart'' t
                   \<and> \<not> str_in ''initiate_checkout'' t \<and> str_in ''purchase'' t)
       (ins_actions ins') \<and>
   (str_in ''purchase'' t \<and> \<not> str_in ''landing_page_view'' t \<and> \<not> str_in ''add_to_cart'' t
      \<and> \<not> str_in ''initiate_checkout'' t \<longrightarrow>
    purchases (apply_action row \<lparr> action_type = t, action_value = v \<rparr>) = of_int v)"
  using insight_row_fields [of ins] insight_row_rev_fields [of ins']
    apply_action_purchase [of t row v]
  unfolding tests_are_substring_tests
  by blast

text \<open>
  Two purchase actions, of values 4 and 6, with another action between them: the row has
  6 purchases. And \<^verbatim>\<open>omni_purchase\<close> sets the purchases of any row.
\<close>

theorem funnel_fields_last_match_witness:
  "purchases (insight_row purchase_insight) = 6 \<and>
   str_in ''purchase'' ''omni_purchase'' \<and> \<not> str_in ''landing_page_view'' ''omni_purchase'' \<and>
   \<not> str_in ''add_to_cart'' ''omni_purchase'' \<and> \<not> str_in ''initiate_checkout'' ''omni_purchase'' \<and>
   purchases (apply_action zero_day \<lparr> action_type = ''omni_purchase'', action_value = 6 \<rparr>) = 6"
proof -
  have o: "str_in ''purchase'' ''omni_purchase'' \<and> \<not> str_in ''landing_page_view'' ''omni_purchase'' \<and>
      \<not> str_in ''add_to_cart'' ''omni_purchase'' \<and> \<not> str_in ''initiate_checkout'' ''omni_purchase''"
    by code_simp
  have p: "str_in ''purchase'' ''purchase'' \<and> \<not> str_in ''landing_page_view'' ''purchase'' \<and>
      \<not> str_in ''add_to_cart'' ''purchase'' \<and> \<not> str_in ''initiate_checkout'' ''purchase''"
    by code_simp
  have c: "\<not> str_in ''purchase'' ''link_click''"
    by code_simp
  have l: "last_value (\<lambda>t. \<not> str_in ''landing_page_view'' t \<and> \<not> str_in ''add_to_cart'' t
                   \<and> \<not> str_in ''initiate_checkout'' t \<and> str_in ''purchase'' t)
       (ins_actions purchase_insight) = 6"
    using o p c by (simp add: purchase_insight_def last_value_def)
  note t = funnel_fields_last_match [of purchase_insight _ "''omni_purchase''" zero_day 6]
  from t have "purchases (insight_row purchase_insight) =
      last_value (\<lambda>t. \<not> str_in ''landing_page_view'' t \<and> \<not> str_in ''add_to_cart'' t
                   \<and> \<not> str_in ''initiate_checkout'' t \<and> str_in ''purchase'' t)
       (ins_actions purchase_insight)"
    by blast
  with l have 1: "purchases (insight_row purchase_insight) = 6"
    by simp
  from t o have "purchases (apply_action zero_day
      \<lparr> action_type = ''omni_purchase'', action_value = 6 \<rparr>) = of_int 6"
    by blast
  then have 2: "purchases (apply_action zero_day
      \<lparr> action_type = ''omni_purchase'', action_value = 6 \<rparr>) = 6"
    by simp
  from o 1 2 show ?thesis
    by blast
qed

section \<open>Properties of the schema normalizer\<close>

lemma detect_header_row_first:
  assumes "df \<noteq> []" and "row_is_header P (df ! 0)"
  shows "detect_header_row P df = 0"
proof -
  from assms(1) have "0 < min 10 (length df)"
    by simp
  then have "[0 ..< min 10 (length df)] = 0 # [Suc 0 ..< min 10 (length df)]"
    by (rule upt_conv_Cons)
  with assms(2) show ?thesis
    by (simp add: detect_header_row_def)
qed

lemma row_is_header_texts:
  "row_is_header P (map CStr ss) \<longleftrightarrow>
     list_ex (str_in ''impression'') (map lower ss) \<or> list_ex (str_in ''day'') (map lower ss)"
  by (simp add: row_is_header_def Let_def comp_def)

lemma normalize_columns_columns:
  "normalize_columns df = normalize_columns \<lparr> columns = columns df, rows = [] \<rparr>"
  by (simp add: normalize_columns_def)

text \<open>The labels of a table are all texts exactly when the comprehension does not raise.\<close>

lemma lower_cols_of_texts:
  "(\<exists>lower_cols. lower_cols_of ls acc = Inr lower_cols) \<longleftrightarrow> (\<forall>l \<in> set ls. \<exists>s. l = LStr s)"
proof (induction ls arbitrary: acc)
  case Nil
  show ?case by simp
next
  case (Cons l ls)
  show ?case
    by (cases l) (simp_all add: Cons.IH)
qed

lemma normalize_columns_raises_iff:
  "normalize_columns df = Inl AttributeError \<longleftrightarrow> \<not> (\<forall>l \<in> set (columns df). \<exists>s. l = LStr s)"
proof -
  have e: "e = AttributeError" if "lower_cols_of ls acc = Inl e" for ls acc e
    using that
  proof (induction ls arbitrary: acc)
    case Nil
    then show ?case by simp
  next
    case (Cons l ls)
    then show ?case by (cases l) auto
  qed
  show ?thesis
  proof (cases "lower_cols_of (columns df) []")
    case (Inl err)
    with e [OF Inl] lower_cols_of_texts [of "columns df" "[]"] show ?thesis
      by (simp add: normalize_columns_def)
  next
    case (Inr lc)
    with lower_cols_of_texts [of "columns df" "[]"] show ?thesis
      by (auto simp: normalize_columns_def)
  qed
qed

text \<open>
  What \<^verbatim>\<open>clean_sheet\<close> does once \<^verbatim>\<open>normalize_columns\<close> has returned: without a date
  column the sheet is rejected with no notes; with a date column and a required field
  missing it is rejected with the notes of the sheet.
\<close>

lemma clean_sheet_no_date:
  assumes "normalize_columns (uploaded_file (detect_header_row P raw_df)) = Inr col_map"
    and "map_of col_map ''date'' = None"
  shows "clean_sheet P raw_df sheet_name uploaded_file = Inr (None, [])"
  using assms by (simp add: clean_sheet_def Let_def)

lemma clean_sheet_missing_field:
  assumes "normalize_columns (uploaded_file (detect_header_row P raw_df)) = Inr col_map"
    and "map_of col_map ''date'' = Some date_col"
    and "\<exists>r \<in> set required. map_of col_map r = None"
  shows "clean_sheet P raw_df sheet_name uploaded_file =
     Inr (None, snd (split_data_and_notes P (uploaded_file (detect_header_row P raw_df))
                       date_col (rows (uploaded_file (detect_header_row P raw_df)))))"
  using assms by (simp add: clean_sheet_def Let_def split: prod.splits)

lemma header_texts:
  "str_in ''impression'' (lower ''Impressions'')" "str_in ''day'' (lower ''Day'')"
  by code_simp+

text \<open>
  C7. On a sheet whose header row has a number among its cells, here the year 2024
  beside \<^verbatim>\<open>Impressions\<close>, and so no date column, \<^verbatim>\<open>clean_sheet\<close> does not reject the
  sheet: \<^verbatim>\<open>normalize_columns\<close> calls \<^verbatim>\<open>lower\<close> on the label 2024 and raises
  \<^verbatim>\<open>AttributeError\<close>, which \<^verbatim>\<open>clean_sheet\<close> does not catch. The same happens when a date
  column is there and the other fields are missing. This holds whatever the library
  parameters are.
\<close>

theorem clean_sheet_raises_on_numeric_header:
  "clean_sheet P year_sheet sheet_name (read_excel year_sheet) = Inl AttributeError \<and>
   clean_sheet P day_year_sheet sheet_name (read_excel day_year_sheet) = Inl AttributeError"
proof
  have h: "detect_header_row P year_sheet = 0"
    by (rule detect_header_row_first)
      (simp_all add: year_sheet_def row_is_header_def Let_def header_texts)
  have c: "columns (read_excel year_sheet 0) = [LStr ''Impressions'', LNum 2024]"
    by (simp add: read_excel_def year_sheet_def)
  have "normalize_columns (read_excel year_sheet 0) = Inl AttributeError"
    by (simp add: normalize_columns_def c)
  with h show "clean_sheet P year_sheet sheet_name (read_excel year_sheet) = Inl AttributeError"
    by (simp add: clean_sheet_def Let_def)
next
  have h: "detect_header_row P day_year_sheet = 0"
    by (rule detect_header_row_first)
      (simp_all add: day_year_sheet_def row_is_header_def Let_def header_texts)
  have c: "columns (read_excel day_year_sheet 0) = [LStr ''Day'', LNum 2024]"
    by (simp add: read_excel_def day_year_sheet_def)
  have "normalize_columns (read_excel day_year_sheet 0) = Inl AttributeError"
    by (simp add: normalize_columns_def c)
  with h show "clean_sheet P day_year_sheet sheet_name (read_excel day_year_sheet) =
      Inl AttributeError"
    by (simp add: clean_sheet_def Let_def)
qed

lemma round_trip_is_header:
  "list_ex (str_in ''impression'') (map lower round_trip_header) \<or>
   list_ex (str_in ''day'') (map lower round_trip_header)"
  by code_simp

lemma round_trip_col_map:
  "normalize_columns \<lparr> columns = map LStr round_trip_header, rows = [] \<rparr> =
     Inr [(''date'', ''Day''), (''impressions'', ''Impressions''), (''clicks'', ''Link clicks''),
          (''lp_views'', ''Landing page views''), (''adds_to_cart'', ''Adds to cart''),
          (''checkouts'', ''Checkouts initiated''), (''spend'', ''Amount spent''),
          (''purchases'', ''Results'')]"
  by code_simp

lemma round_trip_cells:
  assumes "columns df = map LStr round_trip_header"
  shows "cell_at df (round_trip_row day) ''Day'' = day"
    and "cell_at df (round_trip_row day) ''Impressions'' = CNum 1000"
    and "cell_at df (round_trip_row day) ''Link clicks'' = CNum 50"
    and "cell_at df (round_trip_row day) ''Landing page views'' = CNum 45"
    and "cell_at df (round_trip_row day) ''Adds to cart'' = CNum 10"
    and "cell_at df (round_trip_row day) ''Checkouts initiated'' = CNum 7"
    and "cell_at df (round_trip_row day) ''Amount spent'' = CNum 500"
    and "cell_at df (round_trip_row day) ''Results'' = CNum 4"
  by (simp_all add: cell_at_def assms round_trip_header_def round_trip_row_def)

text \<open>
  C8. The sheet with the header row Day, Impressions, Link clicks, Landing page views,
  Adds to cart, Checkouts initiated, Amount spent, Results and the one data row
  (day, 1000, 50, 45, 10, 7, 500, 4), where \<^verbatim>\<open>pd.to_datetime\<close> reads the cell \<open>day\<close> as
  the date \<open>t\<close>, is normalized by \<^verbatim>\<open>clean_sheet\<close> into exactly one row, with that date,
  impressions 1000, clicks 50, lp_views 45, adds_to_cart 10, checkouts 7, spend 500 and
  purchases 4, and with no notes. The file read with header row 0 is the table of these
  labels and this row.
\<close>

theorem clean_sheet_round_trip:
  assumes "to_datetime P day = Timestamp t"
    and "uploaded_file 0 =
      \<lparr> columns = map LStr round_trip_header, rows = [round_trip_row day] \<rparr>"
  shows "clean_sheet P (round_trip_sheet day) sheet_name uploaded_file =
     Inr (Some [\<lparr> date = t, impressions = 1000, clicks = 50, lp_views = 45,
                  adds_to_cart = 10, checkouts = 7, purchases = 4, spend = 500,
                  product = sheet_name \<rparr>],
          [])"
proof -
  let ?df = "uploaded_file 0"
  let ?col_map = "[(''date'', ''Day''), (''impressions'', ''Impressions''),
      (''clicks'', ''Link clicks''), (''lp_views'', ''Landing page views''),
      (''adds_to_cart'', ''Adds to cart''), (''checkouts'', ''Checkouts initiated''),
      (''spend'', ''Amount spent''), (''purchases'', ''Results'')]"
  have cols: "columns ?df = map LStr round_trip_header" and rws: "rows ?df = [round_trip_row day]"
    by (simp_all add: assms(2))
  have h: "detect_header_row P (round_trip_sheet day) = 0"
    by (rule detect_header_row_first)
      (simp_all add: round_trip_sheet_def row_is_header_texts round_trip_is_header)
  have n: "normalize_columns ?df = Inr ?col_map"
    using normalize_columns_columns [of ?df] round_trip_col_map by (simp add: cols)
  have s: "split_data_and_notes P ?df ''Day'' (rows ?df) = ([round_trip_row day], [])"
    by (simp add: rws round_trip_cells [OF cols] assms(1))
  have r: "\<not> (\<exists>r \<in> set required. map_of ?col_map r = None)"
    by (simp add: required_def)
  have c: "clean_row P ?df ?col_map sheet_name (round_trip_row day) =
      Some \<lparr> date = t, impressions = 1000, clicks = 50, lp_views = 45, adds_to_cart = 10,
             checkouts = 7, purchases = 4, spend = 500, product = sheet_name \<rparr>"
    by (simp add: clean_row_def numeric_at_def to_datetime_coerce_def
        round_trip_cells [OF cols] assms(1))
  show ?thesis
    unfolding clean_sheet_def Let_def h n
    using r by (simp add: s c)
qed

text \<open>The same sheet with the day as the text \<^verbatim>\<open>2024-01-01\<close>, read by \<^const>\<open>read_excel\<close>.\<close>

theorem clean_sheet_round_trip_witness:
  "to_datetime sample_pandas (CStr ''2024-01-01'') = Timestamp (2024, 1, 1) \<and>
   read_excel (round_trip_sheet (CStr ''2024-01-01'')) 0 =
     \<lparr> columns = map LStr round_trip_header,
       rows = [round_trip_row (CStr ''2024-01-01'')] \<rparr> \<and>
   clean_sheet sample_pandas (round_trip_sheet (CStr ''2024-01-01'')) ''Product A''
       (read_excel (round_trip_sheet (CStr ''2024-01-01''))) =
     Inr (Some [\<lparr> date = (2024, 1, 1), impressions = 1000, clicks = 50, lp_views = 45,
                  adds_to_cart = 10, checkouts = 7, purchases = 4, spend = 500,
                  product = ''Product A'' \<rparr>],
          [])"
proof -
  have d: "to_datetime sample_pandas (CStr ''2024-01-01'') = Timestamp (2024, 1, 1)"
    by (simp add: sample_pandas_def)
  have f: "read_excel (round_trip_sheet (CStr ''2024-01-01'')) 0 =
      \<lparr> columns = map LStr round_trip_header,
        rows = [round_trip_row (CStr ''2024-01-01'')] \<rparr>"
    by (simp add: read_excel_def round_trip_sheet_def round_trip_header_def)
  from d f
    clean_sheet_round_trip
      [of sample_pandas "CStr ''2024-01-01''" "(2024, 1, 1)"
          "read_excel (round_trip_sheet (CStr ''2024-01-01''))" "''Product A''"]
  show ?thesis
    by blast
qed

section \<open>Purity of the operations\<close>

lemma daily_st_value:
  assumes "df < length h" and "h ! df = Frame rs"
  shows "calculate_daily_metrics_st h df =
     Some (length h, h @ [DailyFrame (calculate_daily_metrics_manual rs)])"
  using assms by (simp add: calculate_daily_metrics_st_def df_copy_def alloc_def)

lemma metrics_st_value:
  assumes "df < length h" and "h ! df = Frame rs"
  shows "calculate_metrics_st h df = Some (length h, h @ [MetricSet (calculate_metrics_manual rs)])"
  using assms by (simp add: calculate_metrics_st_def alloc_def)

lemma recommendations_st_value:
  assumes "metrics < length h" and "h ! metrics = MetricSet m"
  shows "get_recommendations_st h metrics =
     Some (length h, h @ [IssueList (get_recommendations_manual m)])"
  using assms
  by (simp add: get_recommendations_st_def alloc_def get_recommendations_manual_def)

text \<open>A call that appends a result computed from the object at \<open>a\<close> alone is pure.\<close>

lemma pure_call_append:
  assumes "a < length h"
    and "\<And>k. a < length k \<Longrightarrow> k ! a = h ! a \<Longrightarrow> f k a = Some (length k, k @ [v])"
  shows "pure_call f h a"
proof -
  have 1: "f h a = Some (length h, h @ [v])"
    using assms by simp
  have "a < length (h @ [v])" and "(h @ [v]) ! a = h ! a"
    using assms(1) by (simp_all add: nth_append)
  then have 2: "f (h @ [v]) a = Some (length (h @ [v]), (h @ [v]) @ [v])"
    by (rule assms(2))
  show ?thesis
    using 1 2 by (simp add: pure_call_def nth_append)
qed

lemma pure_daily:
  assumes "df < length h" and "h ! df = Frame rs"
  shows "pure_call calculate_daily_metrics_st h df"
  using assms by (intro pure_call_append) (simp_all add: daily_st_value)

lemma pure_metrics:
  assumes "df < length h" and "h ! df = Frame rs"
  shows "pure_call calculate_metrics_st h df"
  using assms by (intro pure_call_append) (simp_all add: metrics_st_value)

lemma pure_recommendations:
  assumes "metrics < length h" and "h ! metrics = MetricSet m"
  shows "pure_call get_recommendations_st h metrics"
  using assms by (intro pure_call_append) (simp_all add: recommendations_st_value)

text \<open>
  C9. In a store where \<open>df\<close> is the address of a table and \<open>metrics\<close> that of a Metric
  Set, \<^verbatim>\<open>calculate_daily_metrics\<close>, \<^verbatim>\<open>calculate_metrics\<close> and \<^verbatim>\<open>get_recommendations\<close>
  return a new object, leave every object of the store as it was, the input among them,
  and return an equal object when called again; the daily table is a new table with the
  columns computed from the rows of the input. \<^verbatim>\<open>get_status\<close> returns a value that
  depends on its arguments only and leaves the store as it was.
\<close>

theorem core_operations_pure:
  "(df < length h \<and> h ! df = Frame rs \<longrightarrow>
      pure_call calculate_daily_metrics_st h df \<and>
      result_of (calculate_daily_metrics_st h df) =
        Some (DailyFrame (calculate_daily_metrics_manual rs)) \<and>
      map_option (\<lambda>(r, h'). h' ! df) (calculate_daily_metrics_st h df) = Some (Frame rs) \<and>
      map_option fst (calculate_daily_metrics_st h df) \<noteq> Some df \<and>
      pure_call calculate_metrics_st h df \<and>
      result_of (calculate_metrics_st h df) = Some (MetricSet (calculate_metrics_manual rs))) \<and>
   (metrics < length h \<and> h ! metrics = MetricSet m \<longrightarrow>
      pure_call get_recommendations_st h metrics \<and>
      result_of (get_recommendations_st h metrics) =
        Some (IssueList (get_recommendations_manual m))) \<and>
   get_status_st h metric_name v = (get_status metric_name v, h) \<and>
   get_status_st (snd (get_status_st h metric_name v)) metric_name v =
     get_status_st h metric_name v"
proof (intro conjI impI)
  assume a: "df < length h \<and> h ! df = Frame rs"
  then show "pure_call calculate_daily_metrics_st h df"
    by (simp add: pure_daily)
  from a show "pure_call calculate_metrics_st h df"
    by (simp add: pure_metrics)
  from a show "result_of (calculate_daily_metrics_st h df) =
      Some (DailyFrame (calculate_daily_metrics_manual rs))"
    by (simp add: daily_st_value result_of_def)
  from a show "map_option (\<lambda>(r, h'). h' ! df) (calculate_daily_metrics_st h df) = Some (Frame rs)"
    by (simp add: daily_st_value nth_append)
  from a show "map_option fst (calculate_daily_metrics_st h df) \<noteq> Some df"
    by (simp add: daily_st_value)
  from a show "result_of (calculate_metrics_st h df) =
      Some (MetricSet (calculate_metrics_manual rs))"
    by (simp add: metrics_st_value result_of_def)
next
  assume a: "metrics < length h \<and> h ! metrics = MetricSet m"
  then show "pure_call get_recommendations_st h metrics"
    by (simp add: pure_recommendations)
  from a show "result_of (get_recommendations_st h metrics) =
      Some (IssueList (get_recommendations_manual m))"
    by (simp add: recommendations_st_value result_of_def)
qed (simp_all add: get_status_st_def)

text \<open>The store with the table of one day at address 0 and a Metric Set at address 1.\<close>

theorem core_operations_pure_witness:
  "0 < length sample_store \<and> sample_store ! 0 = Frame [zero_day] \<and>
   pure_call calculate_daily_metrics_st sample_store 0 \<and>
   map_option (\<lambda>(r, h'). h' ! 0) (calculate_daily_metrics_st sample_store 0) =
     Some (Frame [zero_day]) \<and>
   pure_call calculate_metrics_st sample_store 0 \<and>
   1 < length sample_store \<and> sample_store ! 1 = MetricSet healthy_metrics \<and>
   pure_call get_recommendations_st sample_store 1"
proof -
  have a: "0 < length sample_store \<and> sample_store ! 0 = Frame [zero_day]"
    by (simp add: sample_store_def)
  have b: "1 < length sample_store \<and> sample_store ! 1 = MetricSet healthy_metrics"
    by (simp add: sample_store_def)
  from a b
    core_operations_pure [of 0 sample_store "[zero_day]" 1 healthy_metrics "''CTR''" "Fin 1"]
  show ?thesis
    by blast
qed

end
